theory Spec2Isabelle
  imports Main "HOL-Library.Sublist"
begin

section \<open>Strings and JavaScript values\<close>

text \<open>
  The string methods the transport layer uses. \<open>s.startsWith(p)\<close>, \<open>s.endsWith(p)\<close>
  and \<open>s.includes(p)\<close> (here \<open>str_includes\<close>) are the prefix, suffix and contiguous-substring tests;
  \<open>s.split('.')[0]\<close> is the part of \<open>s\<close> before its first dot (the whole of \<open>s\<close>
  when it has none); \<open>s.replace(/^https?:\/\//, '')\<close> drops a leading
  \<open>http://\<close> or \<open>https://\<close>.
\<close>

definition startsWith :: "string \<Rightarrow> string \<Rightarrow> bool" where
  "startsWith s p = (take (length p) s = p)"

definition endsWith :: "string \<Rightarrow> string \<Rightarrow> bool" where
  "endsWith s p = (length p \<le> length s \<and> drop (length s - length p) s = p)"

fun str_includes :: "string \<Rightarrow> string \<Rightarrow> bool" where
  "str_includes [] p = (p = [])"
| "str_includes (c # cs) p = (startsWith (c # cs) p \<or> str_includes cs p)"

definition split_dot_first :: "string \<Rightarrow> string" where
  "split_dot_first s = takeWhile (\<lambda>c. c \<noteq> CHR ''.'') s"

definition strip_http_scheme :: "string \<Rightarrow> string" where
  "strip_http_scheme s =
     (if startsWith s ''http://'' then drop 7 s
      else if startsWith s ''https://'' then drop 8 s
      else s)"

text \<open>
  A string-or-null variable tested by \<open>if (x)\<close> or used as \<open>x || y\<close>: null, undefined
  and the empty string are falsy.
\<close>

fun truthy_str :: "string option \<Rightarrow> string option" where
  "truthy_str None = None"
| "truthy_str (Some s) = (if s = [] then None else Some s)"

text \<open>JSON-like values, as \<open>JSON.parse\<close> and the Discord SDK deliver them.\<close>

datatype js =
    JUndefined
  | JNull
  | JBool bool
  | JNum int
  | JStr string
  | JArr "js list"
  | JObj "(string \<times> js) list"

fun truthy :: "js \<Rightarrow> bool" where
  "truthy JUndefined = False"
| "truthy JNull = False"
| "truthy (JBool b) = b"
| "truthy (JNum n) = (n \<noteq> 0)"
| "truthy (JStr s) = (s \<noteq> [])"
| "truthy (JArr xs) = True"
| "truthy (JObj kvs) = True"

text \<open>Property read \<open>v.k\<close> on a non-null value: undefined unless \<open>v\<close> is an object with key \<open>k\<close>.\<close>

fun get_prop :: "js \<Rightarrow> string \<Rightarrow> js" where
  "get_prop (JObj kvs) k = (case map_of kvs k of Some v \<Rightarrow> v | None \<Rightarrow> JUndefined)"
| "get_prop v k = JUndefined"

fun isArray :: "js \<Rightarrow> bool" where
  "isArray (JArr xs) = True"
| "isArray v = False"

text \<open>\<open>typeof v === 'object'\<close>: arrays, objects and null.\<close>

fun typeof_object :: "js \<Rightarrow> bool" where
  "typeof_object (JArr xs) = True"
| "typeof_object (JObj kvs) = True"
| "typeof_object JNull = True"
| "typeof_object v = False"

fun object_keys :: "js \<Rightarrow> string list" where
  "object_keys (JObj kvs) = map fst kvs"
| "object_keys v = []"

section \<open>AddressResolver: \<open>getWebSocketUrl\<close>\<close>

text \<open>
  What the resolver reads from the page: \<open>window.location.protocol\<close>,
  \<open>window.location.host\<close> and the build-time variable \<open>VITE_WS_HOST\<close>.
\<close>

record page =
  loc_protocol :: string
  loc_host :: string
  VITE_WS_HOST :: "string option"

definition page_scheme :: "'a page_scheme \<Rightarrow> string" where
  "page_scheme w = (if loc_protocol w = ''https:'' then ''wss:'' else ''ws:'')"

definition getWebSocketUrl :: "'a page_scheme \<Rightarrow> string option \<Rightarrow> string" where
  "getWebSocketUrl w customServerUrl =
     (case truthy_str customServerUrl of
        Some custom \<Rightarrow>
          (let protocol = (if startsWith custom ''https'' then ''wss:'' else ''ws:'');
               serverUrl = strip_http_scheme custom;
               serverUrl' =
                 (if \<not> endsWith serverUrl ''/ws''
                  then (if endsWith serverUrl ''/'' then serverUrl @ ''ws'' else serverUrl @ ''/ws'')
                  else serverUrl)
           in protocol @ ''//'' @ serverUrl')
      | None \<Rightarrow>
          (if str_includes (loc_host w) ''discordsays.com''
           then page_scheme w @ ''//'' @ split_dot_first (loc_host w) @ ''.discordsays.com/.proxy/ws''
           else (let host = (case truthy_str (VITE_WS_HOST w) of Some h \<Rightarrow> h | None \<Rightarrow> loc_host w)
                 in page_scheme w @ ''//'' @ host @ ''/ws'')))"

section \<open>ConnectionManager: the module state and the browser objects it drives\<close>

text \<open>
  The module keeps its state in top-level variables; here they are the first six fields of
  \<open>manager\<close>. The remaining fields are the part of the browser the module acts on: every
  \<open>WebSocket\<close> object it has constructed (a socket is named by its position in \<open>sockets\<close>),
  every timeout it has requested (handle \<open>h\<close> is entry \<open>h - 1\<close> of \<open>timeouts\<close>, so handles
  are positive, as in a browser), the clock in milliseconds, the frames handed to
  \<open>socket.send\<close>, the handler invocations made, and the lines written by \<open>clientLog\<close>.
  \<open>new WebSocket(url)\<close> throws a \<open>SyntaxError\<close> when the browser cannot parse \<open>url\<close>, and
  otherwise returns a socket in state \<open>CONNECTING\<close>; which URLs parse is the browser's
  business, so it is the field \<open>url_parses\<close> that \<open>browser\<close> adds to the page.
  \<open>close()\<close> moves a socket to \<open>CLOSING\<close>, and the close event arrives later as a
  separate step. An exception is a value: a function that can end with one returns
  \<open>Inl\<close> of it beside the state it leaves behind, since the assignments made before the
  exception stay.
\<close>

record browser = page +
  url_parses :: "string \<Rightarrow> bool"

datatype exn = SyntaxError

datatype readyState = CONNECTING | OPEN | CLOSING | CLOSED

record websocket =
  ws_url :: string
  ws_readyState :: readyState

datatype timeout_status = Pending | Cleared | Fired

record timeout =
  due :: nat
  status :: timeout_status

record UserInfo =
  userId :: string
  username :: string
  instanceId :: "string option"
  activityId :: "string option"

datatype event = OnMessage | OnUserJoined | OnUserLeft | OnConnect | OnDisconnect | OnError

text \<open>
  A subscribed callback is opaque: it has an identity (what \<open>handler !== callback\<close>
  compares) and, for given arguments, either returns or raises. Callbacks are taken not to
  call back into the connection manager.
\<close>

record handler =
  hid :: nat
  raises :: "js list \<Rightarrow> bool"

datatype level = Info | Warn | Err

record manager =
  socket :: "nat option"
  connected :: bool
  userInfo :: "UserInfo option"
  reconnectTimer :: "nat option"
  customServerUrl :: "string option"
  handlers :: "event \<Rightarrow> handler list"
  sockets :: "websocket list"
  timeouts :: "timeout list"
  now :: nat
  sent :: "(nat \<times> js) list"
  calls :: "(nat \<times> js list) list"
  logs :: "(level \<times> string) list"

definition initial :: manager where
  "initial = \<lparr>socket = None, connected = False, userInfo = None, reconnectTimer = None,
     customServerUrl = None, handlers = (\<lambda>ev. []), sockets = [], timeouts = [], now = 0,
     sent = [], calls = [], logs = []\<rparr>"

definition clientLog :: "level \<Rightarrow> string \<Rightarrow> manager \<Rightarrow> manager" where
  "clientLog l msg s = s\<lparr>logs := logs s @ [(l, msg)]\<rparr>"

text \<open>\<open>if (reconnectTimer)\<close> on a number-or-null: null and 0 are falsy.\<close>

fun truthy_handle :: "nat option \<Rightarrow> nat option" where
  "truthy_handle None = None"
| "truthy_handle (Some h) = (if h = 0 then None else Some h)"

definition setTimeout :: "nat \<Rightarrow> manager \<Rightarrow> nat \<times> manager" where
  "setTimeout delay s =
     (Suc (length (timeouts s)),
      s\<lparr>timeouts := timeouts s @ [\<lparr>due = now s + delay, status = Pending\<rparr>]\<rparr>)"

definition timeout_status_of :: "nat \<Rightarrow> manager \<Rightarrow> timeout_status option" where
  "timeout_status_of h s =
     (if 0 < h \<and> h \<le> length (timeouts s) then Some (status (timeouts s ! (h - 1))) else None)"

definition set_timeout_status :: "nat \<Rightarrow> timeout_status \<Rightarrow> manager \<Rightarrow> manager" where
  "set_timeout_status h st s =
     s\<lparr>timeouts := (timeouts s)[h - 1 := (timeouts s ! (h - 1))\<lparr>status := st\<rparr>]\<rparr>"

definition clearTimeout :: "nat \<Rightarrow> manager \<Rightarrow> manager" where
  "clearTimeout h s =
     (if timeout_status_of h s = Some Pending then set_timeout_status h Cleared s else s)"

definition new_WebSocket :: "browser \<Rightarrow> string \<Rightarrow> manager \<Rightarrow> (exn + nat) \<times> manager" where
  "new_WebSocket w u s =
     (if url_parses w u
      then (Inr (length (sockets s)),
            s\<lparr>sockets := sockets s @ [\<lparr>ws_url = u, ws_readyState = CONNECTING\<rparr>]\<rparr>)
      else (Inl SyntaxError, s))"

definition ready :: "nat \<Rightarrow> manager \<Rightarrow> readyState option" where
  "ready i s = (if i < length (sockets s) then Some (ws_readyState (sockets s ! i)) else None)"

definition set_ready :: "nat \<Rightarrow> readyState \<Rightarrow> manager \<Rightarrow> manager" where
  "set_ready i r s = s\<lparr>sockets := (sockets s)[i := (sockets s ! i)\<lparr>ws_readyState := r\<rparr>]\<rparr>"

definition ws_close :: "nat \<Rightarrow> manager \<Rightarrow> manager" where
  "ws_close i s =
     (if ready i s = Some OPEN \<or> ready i s = Some CONNECTING then set_ready i CLOSING s else s)"

subsection \<open>EventBus: \<open>on\<close>, \<open>off\<close> and the \<open>forEach\<close> delivery\<close>

definition on :: "event \<Rightarrow> handler \<Rightarrow> manager \<Rightarrow> manager" where
  "on ev callback s = s\<lparr>handlers := (handlers s)(ev := handlers s ev @ [callback])\<rparr>"

definition off :: "event \<Rightarrow> handler \<Rightarrow> manager \<Rightarrow> manager" where
  "off ev callback s =
     s\<lparr>handlers := (handlers s)(ev := filter (\<lambda>h. hid h \<noteq> hid callback) (handlers s ev))\<rparr>"

text \<open>
  \<open>list.forEach(handler => handler(args))\<close>: the callbacks run in list order; the first
  one that raises ends the loop, and the exception leaves \<open>forEach\<close>. The result is the
  invocations made and whether an exception left the loop.
\<close>

fun forEach :: "handler list \<Rightarrow> js list \<Rightarrow> (nat \<times> js list) list \<times> bool" where
  "forEach [] args = ([], False)"
| "forEach (h # hs) args =
     (if raises h args then ([(hid h, args)], True)
      else (let (cs, r) = forEach hs args in ((hid h, args) # cs, r)))"

definition dispatch :: "event \<Rightarrow> js list \<Rightarrow> manager \<Rightarrow> manager \<times> bool" where
  "dispatch ev args s =
     (let (cs, r) = forEach (handlers s ev) args in (s\<lparr>calls := calls s @ cs\<rparr>, r))"

subsection \<open>\<open>send\<close>, \<open>connect\<close>, \<open>disconnect\<close>, \<open>joinInstance\<close>\<close>

text \<open>The object \<open>{type, ...data}\<close> that \<open>send\<close> serialises.\<close>

definition frame :: "string \<Rightarrow> (string \<times> js) list \<Rightarrow> js" where
  "frame ty data =
     JObj ((''type'', (case map_of data ''type'' of Some v \<Rightarrow> v | None \<Rightarrow> JStr ty))
           # filter (\<lambda>kv. fst kv \<noteq> ''type'') data)"

definition userInfo_fields :: "UserInfo \<Rightarrow> (string \<times> js) list" where
  "userInfo_fields u =
     [(''userId'', JStr (userId u)), (''username'', JStr (username u))]
     @ (case instanceId u of Some i \<Rightarrow> [(''instanceId'', JStr i)] | None \<Rightarrow> [])
     @ (case activityId u of Some a \<Rightarrow> [(''activityId'', JStr a)] | None \<Rightarrow> [])"

definition send :: "string \<Rightarrow> (string \<times> js) list \<Rightarrow> manager \<Rightarrow> bool \<times> manager" where
  "send ty data s =
     (case socket s of
        None \<Rightarrow> (False, clientLog Err ''Cannot send message - not connected'' s)
      | Some i \<Rightarrow>
          (if ready i s \<noteq> Some OPEN
           then (False, clientLog Err ''Cannot send message - not connected'' s)
           else (True, (clientLog Info (''Sending '' @ ty @ '' message'') s)
                         \<lparr>sent := sent s @ [(i, frame ty data)]\<rparr>)))"

definition sendMessage :: "string \<Rightarrow> manager \<Rightarrow> bool \<times> manager" where
  "sendMessage msg s = send ''message'' [(''message'', JStr msg)] s"

definition isConnected :: "manager \<Rightarrow> bool" where
  "isConnected s = connected s"

definition clear_reconnect :: "manager \<Rightarrow> manager" where
  "clear_reconnect s =
     (case truthy_handle (reconnectTimer s) of
        Some h \<Rightarrow> (clearTimeout h s)\<lparr>reconnectTimer := None\<rparr>
      | None \<Rightarrow> s)"

text \<open>
  \<open>connect\<close> has no \<open>try\<close>: when the constructor throws, the exception leaves \<open>connect\<close>
  with the identity stored and the timer cleared, and \<open>socket\<close> is not assigned.
\<close>

definition connect :: "browser \<Rightarrow> UserInfo \<Rightarrow> manager \<Rightarrow> (exn + unit) \<times> manager" where
  "connect w user s =
     (let s1 = s\<lparr>userInfo := Some user\<rparr>;
          s2 = clientLog Info ''Connecting to WebSocket server'' s1;
          s3 = clear_reconnect s2
      in case new_WebSocket w (getWebSocketUrl w (customServerUrl s3)) s3 of
           (Inl e, s4) \<Rightarrow> (Inl e, s4)
         | (Inr i, s4) \<Rightarrow> (Inr (), s4\<lparr>socket := Some i\<rparr>))"

definition disconnect :: "manager \<Rightarrow> manager" where
  "disconnect s =
     (let s1 = (case socket s of
                  Some i \<Rightarrow>
                    (if ready i s = Some OPEN \<or> ready i s = Some CONNECTING
                     then ws_close i s else s)
                | None \<Rightarrow> s);
          s2 = clear_reconnect s1
      in s2\<lparr>socket := None, connected := False\<rparr>)"

text \<open>
  \<open>joinInstance\<close> returns \<open>true\<close> after \<open>connect\<close> has returned; an exception of
  \<open>connect\<close> leaves \<open>joinInstance\<close> too, and then nothing is returned.
\<close>

definition joinInstance ::
  "browser \<Rightarrow> string \<Rightarrow> string option \<Rightarrow> string \<Rightarrow> string \<Rightarrow> string option \<Rightarrow> manager
     \<Rightarrow> (exn + bool) \<times> manager" where
  "joinInstance w inst act uid uname serverUrl s =
     (let s1 = disconnect s;
          s2 = s1\<lparr>customServerUrl := truthy_str serverUrl\<rparr>;
          newUserInfo = \<lparr>userId = uid, username = uname, instanceId = Some inst, activityId = None\<rparr>;
          newUserInfo' = (case truthy_str act of
                            Some a \<Rightarrow> newUserInfo\<lparr>activityId := Some a\<rparr>
                          | None \<Rightarrow> newUserInfo)
      in case connect w newUserInfo' s2 of
           (Inl e, s3) \<Rightarrow> (Inl e, s3)
         | (Inr u, s3) \<Rightarrow> (Inr True, s3))"

subsection \<open>The socket callbacks installed by \<open>connect\<close>\<close>

text \<open>
  The four callbacks close over the module variables only, so every socket that
  \<open>connect\<close> creates has the same ones. \<open>onmessage\<close> receives the result of
  \<open>JSON.parse\<close> on the frame (\<open>None\<close> when parsing raises); its \<open>try\<close>/\<open>catch\<close> logs any
  exception raised inside, also one raised by a handler.
\<close>

definition onopen :: "manager \<Rightarrow> manager" where
  "onopen s =
     (let s1 = (clientLog Info ''WebSocket connected'' s)\<lparr>connected := True\<rparr>;
          s2 = (case userInfo s1 of
                  Some u \<Rightarrow> snd (send ''join'' (userInfo_fields u)
                                   (clientLog Info ''Sending join message'' s1))
                | None \<Rightarrow> s1)
      in fst (dispatch OnConnect [] s2))"

definition caught :: "manager \<times> bool \<Rightarrow> manager" where
  "caught r = (if snd r then clientLog Err ''Error processing message'' (fst r) else fst r)"

definition onmessage :: "js option \<Rightarrow> manager \<Rightarrow> manager" where
  "onmessage parsed s =
     (let s1 = clientLog Info ''Message received'' s in
      case parsed of
        None \<Rightarrow> clientLog Err ''Error processing message'' s1
      | Some data \<Rightarrow>
          (if data = JNull \<or> data = JUndefined
           then clientLog Err ''Error processing message'' s1
           else (let ty = get_prop data ''type'' in
             if ty = JStr ''message''
               then caught (dispatch OnMessage [get_prop data ''userId'', get_prop data ''message''] s1)
             else if ty = JStr ''user_joined''
               then caught (dispatch OnUserJoined [get_prop data ''userId''] s1)
             else if ty = JStr ''user_left''
               then caught (dispatch OnUserLeft [get_prop data ''userId''] s1)
             else if ty = JStr ''error''
               then caught (dispatch OnError [get_prop data ''message'']
                              (clientLog Err ''Error from server'' s1))
             else s1)))"

definition onclose :: "manager \<Rightarrow> manager" where
  "onclose s =
     (let s1 = (clientLog Info ''WebSocket disconnected'' s)\<lparr>connected := False, socket := None\<rparr>;
          (s2, raised) = dispatch OnDisconnect [] s1
      in if raised then s2
         else (case userInfo s2 of
                 None \<Rightarrow> s2
               | Some u \<Rightarrow>
                   (let (h, s3) = setTimeout 5000
                                    (clientLog Info ''Scheduling reconnect attempt in 5 seconds'' s2)
                    in s3\<lparr>reconnectTimer := Some h\<rparr>)))"

text \<open>
  The timeout's callback. An exception of \<open>connect\<close> ends the callback; the browser
  reports it and goes on, so what remains is the state.
\<close>

definition reconnect_callback :: "browser \<Rightarrow> manager \<Rightarrow> manager" where
  "reconnect_callback w s =
     (let s1 = clientLog Info ''Attempting to reconnect'' s in
      case userInfo s1 of Some u \<Rightarrow> snd (connect w u s1) | None \<Rightarrow> s1)"

definition connection_error_message :: "string \<Rightarrow> string" where
  "connection_error_message wsUrl =
     ''Connection error''
     @ (if str_includes wsUrl ''discordsays.com''
        then ''. Discord host may be blocking WebSocket connections.'' else [])
     @ '' Try refreshing the page or checking your network connection.''"

definition onerror :: "browser \<Rightarrow> manager \<Rightarrow> manager" where
  "onerror w s =
     (let wsUrl = getWebSocketUrl w (customServerUrl s);
          s1 = clientLog Err ''WebSocket error object''
                 (clientLog Err ''WebSocket connection failed'' s);
          errorMessage = connection_error_message wsUrl
      in fst (dispatch OnError [JStr errorMessage] s1))"

subsection \<open>What the browser does: socket events, timeouts, time\<close>

definition ev_open :: "nat \<Rightarrow> manager \<Rightarrow> manager" where
  "ev_open i s = (if ready i s = Some CONNECTING then onopen (set_ready i OPEN s) else s)"

definition ev_message :: "nat \<Rightarrow> js option \<Rightarrow> manager \<Rightarrow> manager" where
  "ev_message i parsed s = (if ready i s = Some OPEN then onmessage parsed s else s)"

definition ev_error :: "browser \<Rightarrow> nat \<Rightarrow> manager \<Rightarrow> manager" where
  "ev_error w i s =
     (if ready i s = None \<or> ready i s = Some CLOSED then s else onerror w s)"

definition ev_close :: "nat \<Rightarrow> manager \<Rightarrow> manager" where
  "ev_close i s =
     (if ready i s = None \<or> ready i s = Some CLOSED then s else onclose (set_ready i CLOSED s))"

definition advance :: "nat \<Rightarrow> manager \<Rightarrow> manager" where
  "advance d s = s\<lparr>now := now s + d\<rparr>"

text \<open>A pending timeout runs its callback once its due time has come, and never before.\<close>

definition ev_timeout :: "browser \<Rightarrow> nat \<Rightarrow> manager \<Rightarrow> manager" where
  "ev_timeout w h s =
     (if timeout_status_of h s = Some Pending \<and> due (timeouts s ! (h - 1)) \<le> now s
      then reconnect_callback w (set_timeout_status h Fired s)
      else s)"

definition live :: "websocket \<Rightarrow> bool" where
  "live x = (ws_readyState x = CONNECTING \<or> ws_readyState x = OPEN)"

definition live_sockets :: "manager \<Rightarrow> nat list" where
  "live_sockets s = filter (\<lambda>i. live (sockets s ! i)) [0..<length (sockets s)]"

definition pending_timeouts :: "manager \<Rightarrow> nat list" where
  "pending_timeouts s =
     filter (\<lambda>h. status (timeouts s ! (h - 1)) = Pending) [1..<Suc (length (timeouts s))]"

subsection \<open>Sequences of calls made by the application\<close>

text \<open>
  \<open>tracked\<close>: the module variables account for everything that is alive, that is, every
  socket that is open or connecting is the one held in \<open>socket\<close>, and every pending
  timeout is the one held in \<open>reconnectTimer\<close>.
\<close>

definition tracked :: "manager \<Rightarrow> bool" where
  "tracked s =
     (list_all (\<lambda>i. socket s = Some i) (live_sockets s)
      \<and> list_all (\<lambda>h. reconnectTimer s = Some h) (pending_timeouts s))"

datatype call =
    Connect UserInfo
  | JoinInstance string "string option" string string "string option"
  | Disconnect

text \<open>
  One call of the application. When the call ends with an exception, the application goes
  on from the state the call leaves behind.
\<close>

fun do_call :: "browser \<Rightarrow> manager \<Rightarrow> call \<Rightarrow> manager" where
  "do_call w s (Connect user) = snd (connect w user s)"
| "do_call w s (JoinInstance inst act uid uname serverUrl) =
     snd (joinInstance w inst act uid uname serverUrl s)"
| "do_call w s Disconnect = disconnect s"

definition do_calls :: "browser \<Rightarrow> call list \<Rightarrow> manager \<Rightarrow> manager" where
  "do_calls w cs s = foldl (do_call w) s cs"

text \<open>
  A sequence of calls in which \<open>connect\<close> is only called while no socket is open or
  connecting.
\<close>

fun connect_when_idle :: "browser \<Rightarrow> call list \<Rightarrow> manager \<Rightarrow> bool" where
  "connect_when_idle w [] s = True"
| "connect_when_idle w (Connect user # cs) s =
     (live_sockets s = [] \<and> connect_when_idle w cs (snd (connect w user s)))"
| "connect_when_idle w (c # cs) s = connect_when_idle w cs (do_call w s c)"

section \<open>PresenceTracker: \<open>fetchParticipants\<close> and \<open>updateParticipants\<close>\<close>

text \<open>
  The lobby keeps the module variable \<open>participants\<close>. \<open>logDebug\<close> and
  \<open>renderParticipants\<close> come from the utilities module: \<open>logDebug\<close> is recorded as a line
  of \<open>debug\<close>; \<open>renderParticipants\<close> is recorded in \<open>rendered\<close>, and the values on which
  it returns normally are the parameter \<open>ok\<close> of the two functions.
\<close>

datatype debug_line =
    ResponseStructure js
  | AvailableKeysInResponse string
  | UnableToParseResponse
  | Fetched js
  | FailedToFetch
  | UpdateReceived js
  | AvailableKeysInUpdate string
  | UnableToParseUpdate
  | Updated js

record lobby =
  participants :: js
  rendered :: "js list"
  debug :: "(debug_line \<times> level) list"

definition logDebug :: "debug_line \<Rightarrow> level \<Rightarrow> lobby \<Rightarrow> lobby" where
  "logDebug line l s = s\<lparr>debug := debug s @ [(line, l)]\<rparr>"

text \<open>\<open>keys.join(', ')\<close>.\<close>

fun join_comma :: "string list \<Rightarrow> string" where
  "join_comma [] = []"
| "join_comma [k] = k"
| "join_comma (k # ks) = k @ '', '' @ join_comma ks"

text \<open>\<open>v.length\<close> for a non-null value.\<close>

fun js_length :: "js \<Rightarrow> js" where
  "js_length (JArr xs) = JNum (int (length xs))"
| "js_length (JStr s) = JNum (int (length s))"
| "js_length (JObj kvs) = get_prop (JObj kvs) ''length''"
| "js_length v = JUndefined"

definition renderParticipants :: "(js \<Rightarrow> bool) \<Rightarrow> js \<Rightarrow> lobby \<Rightarrow> lobby \<times> bool" where
  "renderParticipants ok p s = (s\<lparr>rendered := rendered s @ [p]\<rparr>, \<not> ok p)"

text \<open>The \<open>catch\<close> block of \<open>fetchParticipants\<close>; the flag says that an exception leaves it.\<close>

definition fetch_catch :: "(js \<Rightarrow> bool) \<Rightarrow> lobby \<Rightarrow> lobby \<times> bool" where
  "fetch_catch ok s =
     renderParticipants ok (JArr []) ((logDebug FailedToFetch Err s)\<lparr>participants := JArr []\<rparr>)"

text \<open>
  \<open>fetchParticipants\<close> on the outcome of the awaited SDK command (\<open>None\<close>: the command
  was rejected). The result is the new lobby and whether the function ends with an
  exception.
\<close>

definition fetchParticipants :: "(js \<Rightarrow> bool) \<Rightarrow> js option \<Rightarrow> lobby \<Rightarrow> lobby \<times> bool" where
  "fetchParticipants ok outcome s =
     (case outcome of
        None \<Rightarrow> fetch_catch ok s
      | Some response \<Rightarrow>
          (let s1 = logDebug (ResponseStructure response) Info s;
               s2 = (if isArray response then s1\<lparr>participants := response\<rparr>
                     else if truthy response \<and> typeof_object response then
                       (if truthy (get_prop response ''users'')
                          then s1\<lparr>participants := get_prop response ''users''\<rparr>
                        else if truthy (get_prop response ''participants'')
                          then s1\<lparr>participants := get_prop response ''participants''\<rparr>
                        else (logDebug (AvailableKeysInResponse (join_comma (object_keys response)))
                                Warn s1)\<lparr>participants := JArr []\<rparr>)
                     else (logDebug UnableToParseResponse Err s1)\<lparr>participants := JArr []\<rparr>);
               s3 = logDebug (Fetched (js_length (participants s2))) Info s2;
               (s4, raised) = renderParticipants ok (participants s3) s3
           in if raised then fetch_catch ok s4 else (s4, False)))"

definition updateParticipants :: "(js \<Rightarrow> bool) \<Rightarrow> js \<Rightarrow> lobby \<Rightarrow> lobby \<times> bool" where
  "updateParticipants ok newParticipants s =
     (let s1 = logDebug (UpdateReceived newParticipants) Info s;
          finish = (\<lambda>t. let t1 = logDebug (Updated (js_length (participants t))) Info t
                        in renderParticipants ok (participants t1) t1)
      in if isArray newParticipants then finish (s1\<lparr>participants := newParticipants\<rparr>)
         else if truthy newParticipants \<and> typeof_object newParticipants then
           (if truthy (get_prop newParticipants ''users'')
              then finish (s1\<lparr>participants := get_prop newParticipants ''users''\<rparr>)
            else if truthy (get_prop newParticipants ''participants'')
              then finish (s1\<lparr>participants := get_prop newParticipants ''participants''\<rparr>)
            else (logDebug (AvailableKeysInUpdate (join_comma (object_keys newParticipants)))
                    Warn s1, False))
         else (logDebug UnableToParseUpdate Err s1, False))"

section \<open>FallbackRelayAdapter: the relay health check\<close>

text \<open>
  \<open>checkConnectionState\<close> closes over the counter \<open>connectionAttempts\<close> and assigns
  \<open>window.__mockAblyFallback\<close>. The probe state adds the due times of the requested
  \<open>setTimeout(checkConnectionState, 5000)\<close> calls that have not run yet, the clock, the
  times at which the check has run, and how often the substitute has been assigned. The
  argument of the check is the value of \<open>ably.connection.state\<close> it reads.
\<close>

record mockAbly =
  mock_connection_state :: string
  mock_connection_id :: string

definition the_mockAbly :: mockAbly where
  "the_mockAbly = \<lparr>mock_connection_state = ''connected'', mock_connection_id = ''mock-connection''\<rparr>"

text \<open>
  The substitute's operations: \<open>channels.get(name).subscribe\<close> and \<open>.publish\<close> log a
  line and resolve to \<open>true\<close>; \<open>connection.on\<close> and \<open>close\<close> do nothing.
\<close>

definition mock_subscribe :: "string \<Rightarrow> string \<Rightarrow> string \<times> bool" where
  "mock_subscribe channelName eventName =
     (''Mock subscription to '' @ eventName @ '' on '' @ channelName, True)"

definition mock_publish :: "string \<Rightarrow> string \<Rightarrow> js \<Rightarrow> string \<times> bool" where
  "mock_publish channelName eventName data =
     (''Mock publish to '' @ eventName @ '' on '' @ channelName, True)"

definition mock_close :: "mockAbly \<Rightarrow> unit" where
  "mock_close m = ()"

record probe =
  connectionAttempts :: nat
  mockAblyFallback :: "mockAbly option"
  checks_due :: "nat list"
  clock :: nat
  checked_at :: "nat list"
  installs :: nat

definition checkConnectionState :: "string \<Rightarrow> probe \<Rightarrow> probe" where
  "checkConnectionState state p =
     (let p1 = p\<lparr>connectionAttempts := connectionAttempts p + 1\<rparr> in
      if state = ''connected'' then p1
      else if connectionAttempts p1 > 3
        then p1\<lparr>mockAblyFallback := Some the_mockAbly, installs := installs p1 + 1\<rparr>
      else p1\<lparr>checks_due := checks_due p1 @ [clock p1 + 5000]\<rparr>)"

text \<open>The state right after initialisation at time \<open>t\<close>: the first check has been requested.\<close>

definition probe_start :: "nat \<Rightarrow> probe" where
  "probe_start t = \<lparr>connectionAttempts = 0, mockAblyFallback = None, checks_due = [t + 5000],
     clock = t, checked_at = [], installs = 0\<rparr>"

text \<open>
  One step of the browser: the earliest requested check, if there is one, runs at its due
  time and reads the connection state \<open>state\<close>; with no check requested nothing runs.
\<close>

definition run_check :: "probe \<Rightarrow> string \<Rightarrow> probe" where
  "run_check p state =
     (case checks_due p of
        [] \<Rightarrow> p
      | d # ds \<Rightarrow>
          checkConnectionState state
            (p\<lparr>checks_due := ds, clock := max (clock p) d,
               checked_at := checked_at p @ [max (clock p) d]\<rparr>))"

definition run_checks :: "string list \<Rightarrow> probe \<Rightarrow> probe" where
  "run_checks states p = foldl run_check p states"

section \<open>Example values\<close>

text \<open>Two callbacks used in the examples below: one that raises on every call, one that never does.\<close>

definition always_raises :: "nat \<Rightarrow> handler" where
  "always_raises n = \<lparr>hid = n, raises = (\<lambda>args. True)\<rparr>"

definition always_returns :: "nat \<Rightarrow> handler" where
  "always_returns n = \<lparr>hid = n, raises = (\<lambda>args. False)\<rparr>"

text \<open>
  A page served over https from a development host, in a browser of which the examples
  need only this: a URL with a space in it does not parse, and the other URLs used below
  do. And a session identity.
\<close>

definition example_page :: browser where
  "example_page = \<lparr>loc_protocol = ''https:'', loc_host = ''localhost:5173'', VITE_WS_HOST = None,
     url_parses = (\<lambda>u. CHR '' '' \<notin> set u)\<rparr>"

definition alice :: UserInfo where
  "alice = \<lparr>userId = ''u1'', username = ''Alice'', instanceId = Some ''inst-1'', activityId = None\<rparr>"

text \<open>
  The manager after \<open>connect(alice)\<close> on the example page, and a state that holds an open
  socket but no identity.
\<close>

definition connecting_alice :: manager where
  "connecting_alice = snd (connect example_page alice initial)"



definition anonymous_open :: manager where
  "anonymous_open =
     initial\<lparr>sockets := [\<lparr>ws_url = ''ws://localhost:5173/ws'', ws_readyState = OPEN\<rparr>]\<rparr>"

section \<open>Properties of the string helpers\<close>

lemma startsWith_prefix: "startsWith s p = prefix p s"
  by (auto simp: startsWith_def prefix_def) (metis append_take_drop_id)

lemma endsWith_suffix: "endsWith s p = suffix p s"
  by (auto simp: endsWith_def suffix_def) (metis append_take_drop_id)

section \<open>AddressResolver\<close>

text \<open>
  Claim C4, as the code has it. Every resolved URL ends in \<open>/ws\<close>. Without an override
  (none given, or the empty string) the channel scheme follows the page: \<open>wss:\<close> on an
  \<open>https:\<close> page and \<open>ws:\<close> otherwise. With an override the page's scheme plays no part:
  the scheme is \<open>wss:\<close> exactly when the override text starts with \<open>https\<close> and \<open>ws:\<close>
  otherwise, a leading \<open>http://\<close> or \<open>https://\<close> is dropped, and \<open>/ws\<close> is appended
  only when the rest does not already end in it.
\<close>

theorem getWebSocketUrl_scheme_and_suffix:
  "endsWith (getWebSocketUrl w c) ''/ws''
   \<and> (truthy_str c = None \<longrightarrow>
        startsWith (getWebSocketUrl w c)
          ((if loc_protocol w = ''https:'' then ''wss:'' else ''ws:'') @ ''//''))
   \<and> (\<forall>u. truthy_str c = Some u \<longrightarrow>
        startsWith (getWebSocketUrl w c)
          ((if startsWith u ''https'' then ''wss:'' else ''ws:'') @ ''//'' @ strip_http_scheme u)
        \<and> (endsWith (strip_http_scheme u) ''/ws'' \<longrightarrow>
             getWebSocketUrl w c
               = (if startsWith u ''https'' then ''wss:'' else ''ws:'') @ ''//'' @ strip_http_scheme u))"
  by (auto simp: getWebSocketUrl_def Let_def page_scheme_def startsWith_def endsWith_suffix
        suffix_def split: option.splits)

theorem getWebSocketUrl_scheme_and_suffix_witness:
  "truthy_str None = None
   \<and> startsWith (getWebSocketUrl
         \<lparr>loc_protocol = ''https:'', loc_host = ''localhost:5173'', VITE_WS_HOST = None\<rparr> None)
       ''wss://''
   \<and> endsWith (getWebSocketUrl
         \<lparr>loc_protocol = ''https:'', loc_host = ''localhost:5173'', VITE_WS_HOST = None\<rparr> None)
       ''/ws''
   \<and> truthy_str (Some ''https://relay.example.com/ws'') = Some ''https://relay.example.com/ws''
   \<and> endsWith (strip_http_scheme ''https://relay.example.com/ws'') ''/ws''
   \<and> getWebSocketUrl \<lparr>loc_protocol = ''http:'', loc_host = ''localhost:5173'', VITE_WS_HOST = None\<rparr>
        (Some ''https://relay.example.com/ws'') = ''wss://relay.example.com/ws''"
  using getWebSocketUrl_scheme_and_suffix
          [of "\<lparr>loc_protocol = ''https:'', loc_host = ''localhost:5173'', VITE_WS_HOST = None\<rparr>" None]
        getWebSocketUrl_scheme_and_suffix
          [of "\<lparr>loc_protocol = ''http:'', loc_host = ''localhost:5173'', VITE_WS_HOST = None\<rparr>"
              "Some ''https://relay.example.com/ws''"]
  by (simp add: startsWith_def endsWith_def strip_http_scheme_def)

text \<open>
  On a secure page (\<open>https:\<close>) the override \<open>custom.example.com\<close> resolves to the
  insecure scheme \<open>ws:\<close>, so the resolved scheme does not match the page's.
\<close>

theorem getWebSocketUrl_override_ignores_page_scheme:
  "loc_protocol \<lparr>loc_protocol = ''https:'', loc_host = ''localhost:5173'', VITE_WS_HOST = None\<rparr>
     = ''https:''
   \<and> getWebSocketUrl \<lparr>loc_protocol = ''https:'', loc_host = ''localhost:5173'', VITE_WS_HOST = None\<rparr>
       (Some ''custom.example.com'') = ''ws://custom.example.com/ws''
   \<and> \<not> startsWith (getWebSocketUrl
         \<lparr>loc_protocol = ''https:'', loc_host = ''localhost:5173'', VITE_WS_HOST = None\<rparr>
         (Some ''custom.example.com'')) ''wss:''"
  by (simp add: getWebSocketUrl_def Let_def startsWith_def endsWith_def strip_http_scheme_def)

section \<open>PresenceTracker\<close>

lemma fetch_array:
  "ok (JArr xs) \<Longrightarrow> fetchParticipants ok (Some (JArr xs)) s
     = (s\<lparr>participants := JArr xs, rendered := rendered s @ [JArr xs],
          debug := debug s @ [(ResponseStructure (JArr xs), Info),
                              (Fetched (JNum (int (length xs))), Info)]\<rparr>, False)"
  by (simp add: fetchParticipants_def Let_def logDebug_def renderParticipants_def)

lemma fetch_users:
  "ok v \<Longrightarrow> map_of kvs ''users'' = Some v \<Longrightarrow> truthy v \<Longrightarrow>
   fetchParticipants ok (Some (JObj kvs)) s
     = (s\<lparr>participants := v, rendered := rendered s @ [v],
          debug := debug s @ [(ResponseStructure (JObj kvs), Info),
                              (Fetched (js_length v), Info)]\<rparr>, False)"
  by (simp add: fetchParticipants_def Let_def logDebug_def renderParticipants_def)

lemma fetch_participants:
  "ok v \<Longrightarrow> \<not> truthy (get_prop (JObj kvs) ''users'') \<Longrightarrow>
   map_of kvs ''participants'' = Some v \<Longrightarrow> truthy v \<Longrightarrow>
   fetchParticipants ok (Some (JObj kvs)) s
     = (s\<lparr>participants := v, rendered := rendered s @ [v],
          debug := debug s @ [(ResponseStructure (JObj kvs), Info),
                              (Fetched (js_length v), Info)]\<rparr>, False)"
  by (simp add: fetchParticipants_def Let_def logDebug_def renderParticipants_def)

lemma fetch_unknown:
  "ok (JArr []) \<Longrightarrow> \<not> truthy (get_prop (JObj kvs) ''users'') \<Longrightarrow>
   \<not> truthy (get_prop (JObj kvs) ''participants'') \<Longrightarrow>
   fetchParticipants ok (Some (JObj kvs)) s
     = (s\<lparr>participants := JArr [], rendered := rendered s @ [JArr []],
          debug := debug s @ [(ResponseStructure (JObj kvs), Info),
             (AvailableKeysInResponse (join_comma (map fst kvs)), Warn),
             (Fetched (JNum 0), Info)]\<rparr>, False)"
  by (simp add: fetchParticipants_def Let_def logDebug_def renderParticipants_def)

lemma get_prop_absent: "k \<notin> fst ` set kvs \<Longrightarrow> get_prop (JObj kvs) k = JUndefined"
  by (simp add: map_of_eq_None_iff[THEN iffD2])

text \<open>
  Claim C6. Where \<open>renderParticipants\<close> returns normally on the lists concerned,
  \<open>fetchParticipants\<close> stores the same list \<open>xs\<close> for the bare sequence \<open>xs\<close>, for
  \<open>{users: xs}\<close> and for \<open>{participants: xs}\<close>, and ends without an exception each time.
  The field \<open>users\<close> is probed first (an object with a \<open>users\<close> list yields it whatever
  else it carries), then \<open>participants\<close>. An object with neither field yields the empty
  list, and no exception.
\<close>

theorem fetchParticipants_shape_tolerant:
  assumes "ok (JArr xs)" and "ok (JArr [])"
  shows "fetchParticipants ok (Some (JArr xs)) s
           = (fst (fetchParticipants ok (Some (JArr xs)) s), False)
       \<and> participants (fst (fetchParticipants ok (Some (JArr xs)) s)) = JArr xs
       \<and> fetchParticipants ok (Some (JObj [(''users'', JArr xs)])) s
           = (fst (fetchParticipants ok (Some (JObj [(''users'', JArr xs)])) s), False)
       \<and> participants (fst (fetchParticipants ok (Some (JObj [(''users'', JArr xs)])) s)) = JArr xs
       \<and> fetchParticipants ok (Some (JObj [(''participants'', JArr xs)])) s
           = (fst (fetchParticipants ok (Some (JObj [(''participants'', JArr xs)])) s), False)
       \<and> participants (fst (fetchParticipants ok (Some (JObj [(''participants'', JArr xs)])) s))
           = JArr xs
       \<and> (map_of kvs ''users'' = Some (JArr xs) \<longrightarrow>
            participants (fst (fetchParticipants ok (Some (JObj kvs)) s)) = JArr xs
            \<and> \<not> snd (fetchParticipants ok (Some (JObj kvs)) s))
       \<and> (\<not> truthy (get_prop (JObj kvs) ''users'') \<and> map_of kvs ''participants'' = Some (JArr xs) \<longrightarrow>
            participants (fst (fetchParticipants ok (Some (JObj kvs)) s)) = JArr xs
            \<and> \<not> snd (fetchParticipants ok (Some (JObj kvs)) s))
       \<and> (''users'' \<notin> fst ` set kvs \<and> ''participants'' \<notin> fst ` set kvs \<longrightarrow>
            participants (fst (fetchParticipants ok (Some (JObj kvs)) s)) = JArr []
            \<and> \<not> snd (fetchParticipants ok (Some (JObj kvs)) s))"
proof -
  have bare: "fetchParticipants ok (Some (JArr xs)) s
           = (fst (fetchParticipants ok (Some (JArr xs)) s), False)
       \<and> participants (fst (fetchParticipants ok (Some (JArr xs)) s)) = JArr xs"
    using assms(1) by (simp add: fetch_array)
  have users: "fetchParticipants ok (Some (JObj [(''users'', JArr xs)])) s
           = (fst (fetchParticipants ok (Some (JObj [(''users'', JArr xs)])) s), False)
       \<and> participants (fst (fetchParticipants ok (Some (JObj [(''users'', JArr xs)])) s)) = JArr xs"
    using assms(1) by (simp add: fetch_users)
  have parts: "fetchParticipants ok (Some (JObj [(''participants'', JArr xs)])) s
           = (fst (fetchParticipants ok (Some (JObj [(''participants'', JArr xs)])) s), False)
       \<and> participants (fst (fetchParticipants ok (Some (JObj [(''participants'', JArr xs)])) s))
           = JArr xs"
    using assms(1) by (simp add: fetch_participants)
  have first: "map_of kvs ''users'' = Some (JArr xs) \<longrightarrow>
            participants (fst (fetchParticipants ok (Some (JObj kvs)) s)) = JArr xs
            \<and> \<not> snd (fetchParticipants ok (Some (JObj kvs)) s)"
    using assms(1) by (simp add: fetch_users)
  have second: "\<not> truthy (get_prop (JObj kvs) ''users'') \<and> map_of kvs ''participants'' = Some (JArr xs) \<longrightarrow>
            participants (fst (fetchParticipants ok (Some (JObj kvs)) s)) = JArr xs
            \<and> \<not> snd (fetchParticipants ok (Some (JObj kvs)) s)"
    using assms(1) by (simp add: fetch_participants del: get_prop.simps)
  have unknown: "''users'' \<notin> fst ` set kvs \<and> ''participants'' \<notin> fst ` set kvs \<longrightarrow>
            participants (fst (fetchParticipants ok (Some (JObj kvs)) s)) = JArr []
            \<and> \<not> snd (fetchParticipants ok (Some (JObj kvs)) s)"
  proof (intro impI, elim conjE)
    assume a: "''users'' \<notin> fst ` set kvs" "''participants'' \<notin> fst ` set kvs"
    have u: "\<not> truthy (get_prop (JObj kvs) ''users'')"
      using a(1) by (simp only: get_prop_absent truthy.simps not_False_eq_True)
    have p: "\<not> truthy (get_prop (JObj kvs) ''participants'')"
      using a(2) by (simp only: get_prop_absent truthy.simps not_False_eq_True)
    show "participants (fst (fetchParticipants ok (Some (JObj kvs)) s)) = JArr []
            \<and> \<not> snd (fetchParticipants ok (Some (JObj kvs)) s)"
      by (simp add: fetch_unknown[of ok kvs s, OF assms(2) u p])
  qed
  from bare users parts first second unknown show ?thesis by blast
qed

theorem fetchParticipants_shape_tolerant_witness:
  "(\<lambda>v. True) (JArr [JStr ''a'', JStr ''b'']) \<and> (\<lambda>v. True) (JArr [])
   \<and> participants (fst (fetchParticipants (\<lambda>v. True) (Some (JArr [JStr ''a'', JStr ''b'']))
        \<lparr>participants = JArr [], rendered = [], debug = []\<rparr>)) = JArr [JStr ''a'', JStr ''b'']
   \<and> participants (fst (fetchParticipants (\<lambda>v. True)
        (Some (JObj [(''users'', JArr [JStr ''a'', JStr ''b''])]))
        \<lparr>participants = JArr [], rendered = [], debug = []\<rparr>)) = JArr [JStr ''a'', JStr ''b'']
   \<and> participants (fst (fetchParticipants (\<lambda>v. True)
        (Some (JObj [(''participants'', JArr [JStr ''a'', JStr ''b''])]))
        \<lparr>participants = JArr [], rendered = [], debug = []\<rparr>)) = JArr [JStr ''a'', JStr ''b'']
   \<and> ''users'' \<notin> fst ` set [(''unknown_field'', JArr [JStr ''a'', JStr ''b''])]
   \<and> ''participants'' \<notin> fst ` set [(''unknown_field'', JArr [JStr ''a'', JStr ''b''])]
   \<and> fetchParticipants (\<lambda>v. True) (Some (JObj [(''unknown_field'', JArr [JStr ''a'', JStr ''b''])]))
        \<lparr>participants = JArr [JStr ''z''], rendered = [], debug = []\<rparr>
      = (\<lparr>participants = JArr [], rendered = [JArr []],
           debug = [(ResponseStructure (JObj [(''unknown_field'', JArr [JStr ''a'', JStr ''b''])]), Info),
                    (AvailableKeysInResponse ''unknown_field'', Warn),
                    (Fetched (JNum 0), Info)]\<rparr>, False)
   \<and> map_of [(''participants'', JArr []), (''users'', JArr [JStr ''a'', JStr ''b''])] ''users''
       = Some (JArr [JStr ''a'', JStr ''b''])
   \<and> participants (fst (fetchParticipants (\<lambda>v. True)
        (Some (JObj [(''participants'', JArr []), (''users'', JArr [JStr ''a'', JStr ''b''])]))
        \<lparr>participants = JArr [], rendered = [], debug = []\<rparr>)) = JArr [JStr ''a'', JStr ''b'']
   \<and> \<not> truthy (get_prop (JObj [(''users'', JNull), (''participants'', JArr [JStr ''a'', JStr ''b''])])
          ''users'')
   \<and> participants (fst (fetchParticipants (\<lambda>v. True)
        (Some (JObj [(''users'', JNull), (''participants'', JArr [JStr ''a'', JStr ''b''])]))
        \<lparr>participants = JArr [], rendered = [], debug = []\<rparr>)) = JArr [JStr ''a'', JStr ''b'']"
  using fetchParticipants_shape_tolerant
          [of "\<lambda>v. True" "[JStr ''a'', JStr ''b'']"
              "\<lparr>participants = JArr [], rendered = [], debug = []\<rparr>"
              "[(''participants'', JArr []), (''users'', JArr [JStr ''a'', JStr ''b''])]"]
        fetchParticipants_shape_tolerant
          [of "\<lambda>v. True" "[JStr ''a'', JStr ''b'']"
              "\<lparr>participants = JArr [], rendered = [], debug = []\<rparr>"
              "[(''users'', JNull), (''participants'', JArr [JStr ''a'', JStr ''b''])]"]
        fetchParticipants_shape_tolerant
          [of "\<lambda>v. True" "[JStr ''a'', JStr ''b'']"
              "\<lparr>participants = JArr [JStr ''z''], rendered = [], debug = []\<rparr>"
              "[(''unknown_field'', JArr [JStr ''a'', JStr ''b''])]"]
  by (simp add: fetchParticipants_def Let_def logDebug_def renderParticipants_def)

text \<open>
  Claim C7. An update that is neither a sequence nor an object with a \<open>users\<close> or
  \<open>participants\<close> field leaves \<open>participants\<close> as it was: nothing is assigned, nothing
  is rendered, and no exception is raised. In particular the set is not emptied.
\<close>

theorem updateParticipants_unrecognized_keeps:
  assumes "\<not> isArray u"
    and "\<forall>kvs. u = JObj kvs \<longrightarrow> ''users'' \<notin> fst ` set kvs \<and> ''participants'' \<notin> fst ` set kvs"
  shows "participants (fst (updateParticipants ok u s)) = participants s
       \<and> rendered (fst (updateParticipants ok u s)) = rendered s
       \<and> \<not> snd (updateParticipants ok u s)"
proof (cases u)
  case (JObj kvs)
  with assms(2) have "get_prop u ''users'' = JUndefined" "get_prop u ''participants'' = JUndefined"
    by (simp_all add: map_of_eq_None_iff[THEN iffD2])
  then show ?thesis using JObj
    by (simp add: updateParticipants_def Let_def logDebug_def)
qed (use assms(1) in \<open>simp_all add: updateParticipants_def Let_def logDebug_def\<close>)

theorem updateParticipants_unrecognized_keeps_witness:
  "\<not> isArray (JObj [(''unknown_field'', JArr [JStr ''c''])])
   \<and> ''users'' \<notin> fst ` set [(''unknown_field'', JArr [JStr ''c''])]
   \<and> ''participants'' \<notin> fst ` set [(''unknown_field'', JArr [JStr ''c''])]
   \<and> participants (fst (updateParticipants (\<lambda>v. True) (JObj [(''unknown_field'', JArr [JStr ''c''])])
        \<lparr>participants = JArr [JStr ''a'', JStr ''b''], rendered = [], debug = []\<rparr>))
       = JArr [JStr ''a'', JStr ''b'']
   \<and> \<not> isArray (JNum 7)
   \<and> participants (fst (updateParticipants (\<lambda>v. True) (JNum 7)
        \<lparr>participants = JArr [JStr ''a'', JStr ''b''], rendered = [], debug = []\<rparr>))
       = JArr [JStr ''a'', JStr ''b'']"
  using updateParticipants_unrecognized_keeps
          [of "JObj [(''unknown_field'', JArr [JStr ''c''])]" "\<lambda>v. True"
              "\<lparr>participants = JArr [JStr ''a'', JStr ''b''], rendered = [], debug = []\<rparr>"]
        updateParticipants_unrecognized_keeps
          [of "JNum 7" "\<lambda>v. True"
              "\<lparr>participants = JArr [JStr ''a'', JStr ''b''], rendered = [], debug = []\<rparr>"]
  by simp

section \<open>FallbackRelayAdapter\<close>

lemma run_check_idle: "checks_due p = [] \<Longrightarrow> run_check p st = p"
  by (simp add: run_check_def)

lemma run_checks_idle: "checks_due p = [] \<Longrightarrow> run_checks sts p = p"
  by (induction sts) (simp_all add: run_checks_def run_check_idle)

lemma run_checks_Cons: "run_checks (st # sts) p = run_checks sts (run_check p st)"
  by (simp add: run_checks_def)

lemma run_checks_append: "run_checks (xs @ ys) p = run_checks ys (run_checks xs p)"
  by (simp add: run_checks_def)

lemma four_failed:
  assumes "a \<noteq> ''connected''" "b \<noteq> ''connected''" "c \<noteq> ''connected''" "d \<noteq> ''connected''"
  shows "run_checks [a, b, c, d] (probe_start t)
     = \<lparr>connectionAttempts = 4, mockAblyFallback = Some the_mockAbly, checks_due = [],
        clock = t + 20000, checked_at = [t + 5000, t + 10000, t + 15000, t + 20000],
        installs = 1\<rparr>"
  using assms
  by (simp add: run_checks_def run_check_def checkConnectionState_def probe_start_def Let_def)

lemma failed_prefix:
  assumes "length pre \<le> 3" "\<forall>x\<in>set pre. x \<noteq> ''connected''"
  shows "run_checks pre (probe_start t)
     = \<lparr>connectionAttempts = length pre, mockAblyFallback = None,
        checks_due = [t + 5000 * (length pre + 1)],
        clock = t + 5000 * length pre, checked_at = map (\<lambda>k. t + 5000 * k) [1..<length pre + 1],
        installs = 0\<rparr>"
proof -
  consider "pre = []" | a where "pre = [a]" | a b where "pre = [a, b]" | a b c where "pre = [a, b, c]"
    using assms(1) by (cases pre rule: list.exhaust; simp; (cases "tl pre"; simp; (cases "tl (tl pre)"; simp)))
  then show ?thesis
    using assms(2)
    by cases (simp_all add: run_checks_def run_check_def checkConnectionState_def probe_start_def Let_def upt_rec)
qed


text \<open>
  Claim C9. The first check runs 5000 ms after initialisation and each further one 5000 ms
  after the check before it. While fewer than four checks have run and none has read
  \<open>connected\<close>, no substitute is installed and exactly one further check is requested.
  When the first four checks all read a state other than \<open>connected\<close>, the fourth
  assigns the substitute relay, once, and requests no further check: whatever the
  connection state becomes later, nothing runs and the substitute stays. When a check
  among the first four reads \<open>connected\<close>, no further check is requested and no
  substitute is ever assigned. The substitute reports the state \<open>connected\<close>, and its
  \<open>subscribe\<close> and \<open>publish\<close> resolve to \<open>true\<close> for every channel, event and payload.
\<close>

theorem relay_health_check_degrades_once:
  assumes "a \<noteq> ''connected''" "b \<noteq> ''connected''" "c \<noteq> ''connected''" "d \<noteq> ''connected''"
    and "length pre \<le> 3" "\<forall>x\<in>set pre. x \<noteq> ''connected''"
  shows "run_checks ([a, b, c, d] @ later) (probe_start t)
           = \<lparr>connectionAttempts = 4, mockAblyFallback = Some the_mockAbly, checks_due = [],
              clock = t + 20000, checked_at = [t + 5000, t + 10000, t + 15000, t + 20000],
              installs = 1\<rparr>
       \<and> run_checks pre (probe_start t)
           = \<lparr>connectionAttempts = length pre, mockAblyFallback = None,
              checks_due = [t + 5000 * (length pre + 1)], clock = t + 5000 * length pre,
              checked_at = map (\<lambda>k. t + 5000 * k) [1..<length pre + 1], installs = 0\<rparr>
       \<and> run_checks (pre @ ''connected'' # later) (probe_start t)
           = \<lparr>connectionAttempts = length pre + 1, mockAblyFallback = None, checks_due = [],
              clock = t + 5000 * (length pre + 1),
              checked_at = map (\<lambda>k. t + 5000 * k) [1..<length pre + 2], installs = 0\<rparr>
       \<and> mock_connection_state the_mockAbly = ''connected''
       \<and> snd (mock_subscribe channelName eventName) \<and> snd (mock_publish channelName eventName data)
       \<and> mock_close the_mockAbly = ()"
proof -
  have inst: "run_checks ([a, b, c, d] @ later) (probe_start t)
           = \<lparr>connectionAttempts = 4, mockAblyFallback = Some the_mockAbly, checks_due = [],
              clock = t + 20000, checked_at = [t + 5000, t + 10000, t + 15000, t + 20000],
              installs = 1\<rparr>"
    by (simp only: run_checks_append four_failed[OF assms(1-4)]) (simp add: run_checks_idle)
  note pre = failed_prefix[OF assms(5,6), of t]
  have conn: "run_checks (pre @ ''connected'' # later) (probe_start t)
           = \<lparr>connectionAttempts = length pre + 1, mockAblyFallback = None, checks_due = [],
              clock = t + 5000 * (length pre + 1),
              checked_at = map (\<lambda>k. t + 5000 * k) [1..<length pre + 2], installs = 0\<rparr>"
    by (simp only: run_checks_append run_checks_Cons pre)
       (simp add: run_check_def checkConnectionState_def Let_def run_checks_idle)
  show ?thesis
    using inst pre conn
    by (simp add: the_mockAbly_def mock_subscribe_def mock_publish_def)
qed

theorem relay_health_check_degrades_once_witness:
  "''connecting'' \<noteq> ''connected'' \<and> ''disconnected'' \<noteq> ''connected''
   \<and> length [''connecting'', ''disconnected''] \<le> 3
   \<and> run_checks [''connecting'', ''connecting'', ''disconnected'', ''connecting'',
                   ''connecting'', ''connected''] (probe_start 0)
       = \<lparr>connectionAttempts = 4, mockAblyFallback = Some the_mockAbly, checks_due = [],
          clock = 20000, checked_at = [5000, 10000, 15000, 20000], installs = 1\<rparr>
   \<and> run_checks [''connecting'', ''disconnected''] (probe_start 0)
       = \<lparr>connectionAttempts = 2, mockAblyFallback = None, checks_due = [15000],
          clock = 10000, checked_at = [5000, 10000], installs = 0\<rparr>
   \<and> run_checks [''connecting'', ''disconnected'', ''connected'', ''connecting'', ''connected'']
        (probe_start 0)
       = \<lparr>connectionAttempts = 3, mockAblyFallback = None, checks_due = [],
          clock = 15000, checked_at = [5000, 10000, 15000], installs = 0\<rparr>"
  using relay_health_check_degrades_once
          [where a = "''connecting''" and b = "''connecting''" and c = "''disconnected''"
             and d = "''connecting''" and pre = "[''connecting'', ''disconnected'']"
             and later = "[''connecting'', ''connected'']" and t = 0
             and channelName = "''game''" and eventName = "''move''" and data = JNull]
  by (simp add: upt_rec)

section \<open>EventBus\<close>

lemma forEach_all_return:
  "\<forall>h\<in>set hs. \<not> raises h args \<Longrightarrow> forEach hs args = (map (\<lambda>h. (hid h, args)) hs, False)"
  by (induction hs) simp_all

lemma forEach_first_raise:
  "\<forall>g\<in>set pre. \<not> raises g args \<Longrightarrow> raises h args \<Longrightarrow>
   forEach (pre @ h # post) args = (map (\<lambda>g. (hid g, args)) (pre @ [h]), True)"
  by (induction pre) simp_all

lemma dispatch_all_return:
  "\<forall>h\<in>set (handlers s ev). \<not> raises h args \<Longrightarrow>
   dispatch ev args s = (s\<lparr>calls := calls s @ map (\<lambda>h. (hid h, args)) (handlers s ev)\<rparr>, False)"
  by (simp add: dispatch_def forEach_all_return)

lemma dispatch_first_raise:
  "handlers s ev = pre @ h # post \<Longrightarrow> \<forall>g\<in>set pre. \<not> raises g args \<Longrightarrow> raises h args \<Longrightarrow>
   dispatch ev args s = (s\<lparr>calls := calls s @ map (\<lambda>g. (hid g, args)) (pre @ [h])\<rparr>, True)"
  by (simp add: dispatch_def forEach_first_raise)

lemma on_appends:
  "handlers (on ev cb s) ev = handlers s ev @ [cb]" "ev' \<noteq> ev \<Longrightarrow> handlers (on ev cb s) ev' = handlers s ev'"
  by (simp_all add: on_def)

lemma onmessage_message:
  "get_prop data ''type'' = JStr ''message'' \<Longrightarrow>
   onmessage (Some data) s
     = caught (dispatch OnMessage [get_prop data ''userId'', get_prop data ''message'']
                 (clientLog Info ''Message received'' s))"
  by (cases data) (simp_all add: onmessage_def Let_def)

lemma onopen_calls: "calls (onopen s) = calls s @ fst (forEach (handlers s OnConnect) [])"
  by (auto simp: onopen_def Let_def dispatch_def send_def clientLog_def split: option.splits prod.splits)

lemma onclose_calls: "calls (onclose s) = calls s @ fst (forEach (handlers s OnDisconnect) [])"
  by (auto simp: onclose_def Let_def dispatch_def clientLog_def setTimeout_def split: option.splits prod.splits)

lemma onerror_calls:
  "calls (onerror w s) = calls s @ fst (forEach (handlers s OnError)
     [JStr (connection_error_message (getWebSocketUrl w (customServerUrl s)))])"
  by (auto simp: onerror_def Let_def dispatch_def clientLog_def split: option.splits prod.splits)

lemma caught_raise: "caught (t, True) = clientLog Err ''Error processing message'' t" "caught (t, False) = t"
  by (simp_all add: caught_def)

lemma onmessage_user_joined:
  "get_prop data ''type'' = JStr ''user_joined'' \<Longrightarrow>
   onmessage (Some data) s
     = caught (dispatch OnUserJoined [get_prop data ''userId''] (clientLog Info ''Message received'' s))"
  by (cases data) (simp_all add: onmessage_def Let_def)

lemma onmessage_user_left:
  "get_prop data ''type'' = JStr ''user_left'' \<Longrightarrow>
   onmessage (Some data) s
     = caught (dispatch OnUserLeft [get_prop data ''userId''] (clientLog Info ''Message received'' s))"
  by (cases data) (simp_all add: onmessage_def Let_def)

lemma onmessage_error:
  "get_prop data ''type'' = JStr ''error'' \<Longrightarrow>
   onmessage (Some data) s
     = caught (dispatch OnError [get_prop data ''message'']
                 (clientLog Err ''Error from server'' (clientLog Info ''Message received'' s)))"
  by (cases data) (simp_all add: onmessage_def Let_def)

text \<open>
  Claim C8, as the code has it. \<open>on\<close> appends the callback to the list of its kind, and
  each socket callback delivers with \<open>forEach\<close> over that list: \<open>onmessage\<close> for the four
  frame types, \<open>onopen\<close>, \<open>onclose\<close> and \<open>onerror\<close> for the others. While no handler
  raises, every subscribed handler of the kind is invoked, in subscription order, with the
  event's arguments. The first handler that raises ends the delivery: the handlers
  subscribed before it and the raising one have been invoked, those after it are not.
  Inside \<open>onmessage\<close> the exception is caught and logged as an error.
\<close>

theorem delivery_in_subscription_order_until_raise:
  "handlers (on ev cb s) ev = handlers s ev @ [cb]
   \<and> ((\<forall>g\<in>set (handlers s ev). \<not> raises g args) \<longrightarrow>
        dispatch ev args s
          = (s\<lparr>calls := calls s @ map (\<lambda>g. (hid g, args)) (handlers s ev)\<rparr>, False))
   \<and> (handlers s ev = pre @ h # post \<and> (\<forall>g\<in>set pre. \<not> raises g args) \<and> raises h args \<longrightarrow>
        dispatch ev args s
          = (s\<lparr>calls := calls s @ map (\<lambda>g. (hid g, args)) (pre @ [h])\<rparr>, True))
   \<and> caught (t, True) = clientLog Err ''Error processing message'' t
   \<and> (get_prop data ''type'' = JStr ''message'' \<longrightarrow>
        onmessage (Some data) s
          = caught (dispatch OnMessage [get_prop data ''userId'', get_prop data ''message'']
                      (clientLog Info ''Message received'' s)))
   \<and> (get_prop data ''type'' = JStr ''user_joined'' \<longrightarrow>
        onmessage (Some data) s
          = caught (dispatch OnUserJoined [get_prop data ''userId'']
                      (clientLog Info ''Message received'' s)))
   \<and> (get_prop data ''type'' = JStr ''user_left'' \<longrightarrow>
        onmessage (Some data) s
          = caught (dispatch OnUserLeft [get_prop data ''userId'']
                      (clientLog Info ''Message received'' s)))
   \<and> (get_prop data ''type'' = JStr ''error'' \<longrightarrow>
        onmessage (Some data) s
          = caught (dispatch OnError [get_prop data ''message'']
                      (clientLog Err ''Error from server'' (clientLog Info ''Message received'' s))))
   \<and> calls (onopen s) = calls s @ fst (forEach (handlers s OnConnect) [])
   \<and> calls (onclose s) = calls s @ fst (forEach (handlers s OnDisconnect) [])
   \<and> calls (onerror w s) = calls s @ fst (forEach (handlers s OnError)
        [JStr (connection_error_message (getWebSocketUrl w (customServerUrl s)))])"
  using on_appends(1)[of ev cb s] dispatch_all_return[of s ev args]
    dispatch_first_raise[of s ev pre h post args] caught_raise(1)[of t]
    onmessage_message[of data s] onmessage_user_joined[of data s] onmessage_user_left[of data s]
    onmessage_error[of data s] onopen_calls[of s] onclose_calls[of s] onerror_calls[of w s]
  by blast

theorem delivery_in_subscription_order_until_raise_witness:
  "map hid (handlers (on OnMessage (always_returns 2) (on OnMessage (always_returns 1) initial))
      OnMessage) = [1, 2]
   \<and> \<not> raises (always_returns 1) [JStr ''u1'', JStr ''hi'']
   \<and> \<not> raises (always_returns 2) [JStr ''u1'', JStr ''hi'']
   \<and> calls (fst (dispatch OnMessage [JStr ''u1'', JStr ''hi'']
        (on OnMessage (always_returns 2) (on OnMessage (always_returns 1) initial))))
       = [(1, [JStr ''u1'', JStr ''hi'']), (2, [JStr ''u1'', JStr ''hi''])]
   \<and> handlers (on OnUserLeft (always_returns 3) (on OnUserLeft (always_raises 2)
        (on OnUserLeft (always_returns 1) initial))) OnUserLeft
       = [always_returns 1] @ always_raises 2 # [always_returns 3]
   \<and> raises (always_raises 2) [JStr ''u1'']
   \<and> get_prop (JObj [(''type'', JStr ''user_left''), (''userId'', JStr ''u1'')]) ''type''
       = JStr ''user_left''
   \<and> calls (onmessage (Some (JObj [(''type'', JStr ''user_left''), (''userId'', JStr ''u1'')]))
        (on OnUserLeft (always_returns 3) (on OnUserLeft (always_raises 2)
          (on OnUserLeft (always_returns 1) initial))))
       = [(1, [JStr ''u1'']), (2, [JStr ''u1''])]
   \<and> logs (onmessage (Some (JObj [(''type'', JStr ''user_left''), (''userId'', JStr ''u1'')]))
        (on OnUserLeft (always_returns 3) (on OnUserLeft (always_raises 2)
          (on OnUserLeft (always_returns 1) initial))))
       = [(Info, ''Message received''), (Err, ''Error processing message'')]"
  using delivery_in_subscription_order_until_raise
          [where ev = OnMessage and args = "[JStr ''u1'', JStr ''hi'']"
             and s = "on OnMessage (always_returns 2) (on OnMessage (always_returns 1) initial)"]
        delivery_in_subscription_order_until_raise
          [where ev = OnUserLeft and args = "[JStr ''u1'']"
             and s = "on OnUserLeft (always_returns 3) (on OnUserLeft (always_raises 2)
                        (on OnUserLeft (always_returns 1) initial))"
             and pre = "[always_returns 1]" and h = "always_raises 2" and post = "[always_returns 3]"
             and data = "JObj [(''type'', JStr ''user_left''), (''userId'', JStr ''u1'')]"]
  by (simp add: on_def initial_def always_raises_def always_returns_def onmessage_def Let_def
        dispatch_def caught_def clientLog_def)

text \<open>
  With a raising handler subscribed first and a second handler after it, a \<open>message\<close>
  frame invokes the first handler only: the second one never runs.
\<close>

theorem raising_handler_stops_delivery:
  "map hid (handlers (on OnMessage (always_returns 2) (on OnMessage (always_raises 1) initial)) OnMessage) = [1, 2]
   \<and> calls (onmessage (Some (JObj [(''type'', JStr ''message''), (''userId'', JStr ''u1''), (''message'', JStr ''hi'')]))
        (on OnMessage (always_returns 2) (on OnMessage (always_raises 1) initial)))
      = [(1, [JStr ''u1'', JStr ''hi''])]"
  by (simp add: on_def initial_def always_raises_def always_returns_def onmessage_def Let_def
        dispatch_def caught_def clientLog_def)

section \<open>ConnectionManager\<close>

lemma filter_upt_cong: "(\<And>i. a \<le> i \<Longrightarrow> i < n \<Longrightarrow> P i = Q i) \<Longrightarrow> filter P [a..<n] = filter Q [a..<n]"
  by (rule filter_cong) simp_all

lemma live_sockets_append:
  "live_sockets (s\<lparr>sockets := sockets s @ [x]\<rparr>)
     = live_sockets s @ (if live x then [length (sockets s)] else [])"
proof -
  have "filter (\<lambda>i. live ((sockets s @ [x]) ! i)) [0..<length (sockets s)]
          = filter (\<lambda>i. live (sockets s ! i)) [0..<length (sockets s)]"
    by (rule filter_upt_cong) (simp add: nth_append)
  then show ?thesis by (simp add: live_sockets_def)
qed

lemma live_sockets_update:
  assumes "\<not> live x"
  shows "live_sockets (s\<lparr>sockets := (sockets s)[i := x]\<rparr>) = filter (\<lambda>j. j \<noteq> i) (live_sockets s)"
proof -
  have "filter (\<lambda>j. live ((sockets s)[i := x] ! j)) [0..<length (sockets s)]
          = filter (\<lambda>j. j \<noteq> i \<and> live (sockets s ! j)) [0..<length (sockets s)]"
  proof (rule filter_upt_cong)
    fix j assume "j < length (sockets s)"
    then show "live ((sockets s)[i := x] ! j) = (j \<noteq> i \<and> live (sockets s ! j))"
      using assms by (cases "j = i") simp_all
  qed
  then show ?thesis by (simp add: live_sockets_def conj_commute)
qed

lemma pending_timeouts_update:
  assumes "status x \<noteq> Pending" "0 < h"
  shows "pending_timeouts (s\<lparr>timeouts := (timeouts s)[h - 1 := x]\<rparr>) = filter (\<lambda>j. j \<noteq> h) (pending_timeouts s)"
proof -
  have "filter (\<lambda>j. status ((timeouts s)[h - 1 := x] ! (j - 1)) = Pending) [1..<Suc (length (timeouts s))]
          = filter (\<lambda>j. j \<noteq> h \<and> status (timeouts s ! (j - 1)) = Pending) [1..<Suc (length (timeouts s))]"
  proof (rule filter_upt_cong)
    fix j assume "1 \<le> j" "j < Suc (length (timeouts s))"
    then show "(status ((timeouts s)[h - 1 := x] ! (j - 1)) = Pending)
                 = (j \<noteq> h \<and> status (timeouts s ! (j - 1)) = Pending)"
      using assms by (cases "j = h") (simp_all add: nth_list_update)
  qed
  then show ?thesis by (simp add: pending_timeouts_def conj_commute)
qed

lemma pending_timeouts_append:
  "pending_timeouts (s\<lparr>timeouts := timeouts s @ [x]\<rparr>)
     = pending_timeouts s @ (if status x = Pending then [Suc (length (timeouts s))] else [])"
proof -
  have "filter (\<lambda>j. status ((timeouts s @ [x]) ! (j - 1)) = Pending) [1..<Suc (length (timeouts s))]
          = filter (\<lambda>j. status (timeouts s ! (j - 1)) = Pending) [1..<Suc (length (timeouts s))]"
    by (rule filter_upt_cong) (auto simp: nth_append)
  then show ?thesis by (simp add: pending_timeouts_def)
qed

lemma live_sockets_bound: "i \<in> set (live_sockets s) \<Longrightarrow> i < length (sockets s) \<and> live (sockets s ! i)"
  by (simp add: live_sockets_def)

lemma pending_timeouts_bound:
  "h \<in> set (pending_timeouts s) \<Longrightarrow> 0 < h \<and> h \<le> length (timeouts s) \<and> status (timeouts s ! (h - 1)) = Pending"
  by (auto simp: pending_timeouts_def)


lemma filter_neq_absent: "h \<notin> set xs \<Longrightarrow> filter (\<lambda>j. j \<noteq> h) xs = xs"
  by (induction xs) auto

lemma pending_clearTimeout:
  assumes "0 < h"
  shows "pending_timeouts (clearTimeout h s) = filter (\<lambda>j. j \<noteq> h) (pending_timeouts s)"
proof (cases "timeout_status_of h s = Some Pending")
  case True
  then show ?thesis
    using assms
    by (simp add: clearTimeout_def set_timeout_status_def pending_timeouts_update del: One_nat_def)
next
  case False
  then have "h \<notin> set (pending_timeouts s)"
    by (auto simp: timeout_status_of_def pending_timeouts_def split: if_splits)
  then show ?thesis using False by (simp add: clearTimeout_def filter_neq_absent)
qed

lemma clearTimeout_fields:
  "sockets (clearTimeout h s) = sockets s" "socket (clearTimeout h s) = socket s"
  "userInfo (clearTimeout h s) = userInfo s" "customServerUrl (clearTimeout h s) = customServerUrl s"
  "reconnectTimer (clearTimeout h s) = reconnectTimer s" "handlers (clearTimeout h s) = handlers s"
  "sent (clearTimeout h s) = sent s" "connected (clearTimeout h s) = connected s"
  "length (timeouts (clearTimeout h s)) = length (timeouts s)" "now (clearTimeout h s) = now s"
  "calls (clearTimeout h s) = calls s" "logs (clearTimeout h s) = logs s"
  by (simp_all add: clearTimeout_def set_timeout_status_def)

lemma live_sockets_cong: "sockets s = sockets t \<Longrightarrow> live_sockets s = live_sockets t"
  by (simp add: live_sockets_def)

lemma pending_timeouts_cong: "timeouts s = timeouts t \<Longrightarrow> pending_timeouts s = pending_timeouts t"
  by (simp add: pending_timeouts_def)

lemma clear_reconnect_fields:
  "sockets (clear_reconnect s) = sockets s" "socket (clear_reconnect s) = socket s"
  "userInfo (clear_reconnect s) = userInfo s" "customServerUrl (clear_reconnect s) = customServerUrl s"
  "handlers (clear_reconnect s) = handlers s" "sent (clear_reconnect s) = sent s"
  "connected (clear_reconnect s) = connected s"
  "length (timeouts (clear_reconnect s)) = length (timeouts s)" "now (clear_reconnect s) = now s"
  "calls (clear_reconnect s) = calls s" "logs (clear_reconnect s) = logs s"
  "truthy_handle (reconnectTimer (clear_reconnect s)) = None"
  by (cases "reconnectTimer s"; simp add: clear_reconnect_def clearTimeout_fields)+

lemma pending_clear_reconnect:
  "pending_timeouts (clear_reconnect s)
     = (case truthy_handle (reconnectTimer s) of
          Some h \<Rightarrow> filter (\<lambda>j. j \<noteq> h) (pending_timeouts s)
        | None \<Rightarrow> pending_timeouts s)"
proof (cases "truthy_handle (reconnectTimer s)")
  case None
  then show ?thesis by (simp add: clear_reconnect_def)
next
  case (Some h)
  then have "0 < h" by (cases "reconnectTimer s") (auto split: if_splits)
  have "pending_timeouts ((clearTimeout h s)\<lparr>reconnectTimer := None\<rparr>) = pending_timeouts (clearTimeout h s)"
    by (rule pending_timeouts_cong) simp
  then show ?thesis using Some \<open>0 < h\<close> by (simp add: clear_reconnect_def pending_clearTimeout)
qed

lemma live_clear_reconnect: "live_sockets (clear_reconnect s) = live_sockets s"
  by (rule live_sockets_cong) (simp add: clear_reconnect_fields)

lemma list_all_same_filter: "list_all (\<lambda>x. a = Some x) xs \<Longrightarrow> a = Some h \<Longrightarrow> filter (\<lambda>j. j \<noteq> h) xs = []"
  by (induction xs) auto

lemma list_all_None: "list_all (\<lambda>x. a = Some x) xs \<Longrightarrow> a = None \<Longrightarrow> xs = []"
  by (cases xs) auto

lemma tracked_pending_clear:
  assumes "list_all (\<lambda>h. reconnectTimer s = Some h) (pending_timeouts s)"
  shows "pending_timeouts (clear_reconnect s) = []"
proof (cases "reconnectTimer s")
  case None
  with assms have "pending_timeouts s = []" by (rule list_all_None)
  then show ?thesis using None by (simp add: pending_clear_reconnect)
next
  case (Some h)
  show ?thesis
  proof (cases "h = 0")
    case True
    have "pending_timeouts s = []"
    proof (cases "pending_timeouts s")
      case (Cons a as)
      then have "a \<in> set (pending_timeouts s)" by simp
      then have "0 < a" by (simp add: pending_timeouts_bound)
      moreover have "a = h" using assms Some Cons by simp
      ultimately show ?thesis using True by simp
    qed simp
    then show ?thesis using Some True by (simp add: pending_clear_reconnect)
  next
    case False
    then show ?thesis using Some list_all_same_filter[OF assms Some]
      by (simp add: pending_clear_reconnect)
  qed
qed


lemma connect_outcome:
  "fst (connect w u s)
     = (if url_parses w (getWebSocketUrl w (customServerUrl s)) then Inr () else Inl SyntaxError)"
  by (simp add: connect_def Let_def new_WebSocket_def clear_reconnect_fields clientLog_def)

lemma connect_fields:
  "sockets (snd (connect w u s))
     = sockets s @ (if url_parses w (getWebSocketUrl w (customServerUrl s))
                    then [\<lparr>ws_url = getWebSocketUrl w (customServerUrl s),
                           ws_readyState = CONNECTING\<rparr>]
                    else [])"
  "socket (snd (connect w u s))
     = (if url_parses w (getWebSocketUrl w (customServerUrl s))
        then Some (length (sockets s)) else socket s)"
  "userInfo (snd (connect w u s)) = Some u"
  "customServerUrl (snd (connect w u s)) = customServerUrl s"
  "connected (snd (connect w u s)) = connected s"
  "handlers (snd (connect w u s)) = handlers s"
  "sent (snd (connect w u s)) = sent s"
  "calls (snd (connect w u s)) = calls s"
  "now (snd (connect w u s)) = now s"
  "truthy_handle (reconnectTimer (snd (connect w u s))) = None"
  by (simp_all add: connect_def Let_def new_WebSocket_def clear_reconnect_fields clientLog_def)

lemma live_connect:
  "live_sockets (snd (connect w u s))
     = live_sockets s @ (if url_parses w (getWebSocketUrl w (customServerUrl s))
                         then [length (sockets s)] else [])"
proof (cases "url_parses w (getWebSocketUrl w (customServerUrl s))")
  case True
  then have "live_sockets (snd (connect w u s))
          = live_sockets (s\<lparr>sockets := sockets s @
              [\<lparr>ws_url = getWebSocketUrl w (customServerUrl s), ws_readyState = CONNECTING\<rparr>]\<rparr>)"
    by (intro live_sockets_cong) (simp add: connect_fields)
  then show ?thesis using True by (simp add: live_sockets_append live_def)
next
  case False
  then have "live_sockets (snd (connect w u s)) = live_sockets s"
    by (intro live_sockets_cong) (simp add: connect_fields)
  then show ?thesis using False by simp
qed

lemma pending_connect:
  "pending_timeouts (snd (connect w u s))
     = (case truthy_handle (reconnectTimer s) of
          Some h \<Rightarrow> filter (\<lambda>j. j \<noteq> h) (pending_timeouts s)
        | None \<Rightarrow> pending_timeouts s)"
proof -
  let ?s2 = "clientLog Info ''Connecting to WebSocket server'' (s\<lparr>userInfo := Some u\<rparr>)"
  have "pending_timeouts (snd (connect w u s)) = pending_timeouts (clear_reconnect ?s2)"
    by (rule pending_timeouts_cong) (simp add: connect_def Let_def new_WebSocket_def)
  moreover have "pending_timeouts ?s2 = pending_timeouts s"
    by (rule pending_timeouts_cong) (simp add: clientLog_def)
  moreover have "reconnectTimer ?s2 = reconnectTimer s" by (simp add: clientLog_def)
  ultimately show ?thesis by (simp add: pending_clear_reconnect split: option.splits)
qed

lemma live_ws_close: "live_sockets (ws_close i s) = filter (\<lambda>j. j \<noteq> i) (live_sockets s)"
proof (cases "ready i s = Some OPEN \<or> ready i s = Some CONNECTING")
  case True
  then show ?thesis
    by (simp add: ws_close_def set_ready_def live_sockets_update live_def)
next
  case False
  then have "i \<notin> set (live_sockets s)"
    by (auto simp: ready_def live_sockets_def live_def split: if_splits)
  then show ?thesis using False by (simp add: ws_close_def filter_neq_absent)
qed

lemma ws_close_fields:
  "timeouts (ws_close i s) = timeouts s" "reconnectTimer (ws_close i s) = reconnectTimer s"
  "userInfo (ws_close i s) = userInfo s" "customServerUrl (ws_close i s) = customServerUrl s"
  "handlers (ws_close i s) = handlers s" "sent (ws_close i s) = sent s"
  "length (sockets (ws_close i s)) = length (sockets s)" "now (ws_close i s) = now s"
  "calls (ws_close i s) = calls s"
  by (simp_all add: ws_close_def set_ready_def)

lemma disconnect_alt:
  "disconnect s = (clear_reconnect (case socket s of Some i \<Rightarrow> ws_close i s | None \<Rightarrow> s))
                    \<lparr>socket := None, connected := False\<rparr>"
  by (simp add: disconnect_def ws_close_def Let_def split: option.splits)

lemma disconnect_fields:
  "socket (disconnect s) = None" "connected (disconnect s) = False"
  "userInfo (disconnect s) = userInfo s" "customServerUrl (disconnect s) = customServerUrl s"
  "handlers (disconnect s) = handlers s" "sent (disconnect s) = sent s"
  "length (sockets (disconnect s)) = length (sockets s)" "now (disconnect s) = now s"
  "calls (disconnect s) = calls s"
  "truthy_handle (reconnectTimer (disconnect s)) = None"
  by (simp_all add: disconnect_alt clear_reconnect_fields ws_close_fields split: option.splits)

lemma live_disconnect:
  "live_sockets (disconnect s)
     = (case socket s of Some i \<Rightarrow> filter (\<lambda>j. j \<noteq> i) (live_sockets s) | None \<Rightarrow> live_sockets s)"
proof -
  have "live_sockets (disconnect s)
          = live_sockets (case socket s of Some i \<Rightarrow> ws_close i s | None \<Rightarrow> s)"
    by (rule live_sockets_cong) (simp add: disconnect_alt clear_reconnect_fields)
  then show ?thesis by (simp add: live_ws_close split: option.splits)
qed

lemma pending_disconnect:
  "pending_timeouts (disconnect s)
     = (case truthy_handle (reconnectTimer s) of
          Some h \<Rightarrow> filter (\<lambda>j. j \<noteq> h) (pending_timeouts s)
        | None \<Rightarrow> pending_timeouts s)"
proof -
  let ?s1 = "case socket s of Some i \<Rightarrow> ws_close i s | None \<Rightarrow> s"
  have "pending_timeouts (disconnect s) = pending_timeouts (clear_reconnect ?s1)"
    by (rule pending_timeouts_cong) (simp add: disconnect_alt)
  moreover have "pending_timeouts ?s1 = pending_timeouts s"
    by (rule pending_timeouts_cong) (simp add: ws_close_fields split: option.splits)
  moreover have "reconnectTimer ?s1 = reconnectTimer s"
    by (simp add: ws_close_fields split: option.splits)
  ultimately show ?thesis by (simp add: pending_clear_reconnect split: option.splits)
qed

lemma tracked_disconnect:
  assumes "tracked s"
  shows "live_sockets (disconnect s) = []" "pending_timeouts (disconnect s) = []"
proof -
  from assms have l: "list_all (\<lambda>i. socket s = Some i) (live_sockets s)"
    and p: "list_all (\<lambda>h. reconnectTimer s = Some h) (pending_timeouts s)"
    by (simp_all add: tracked_def)
  show "live_sockets (disconnect s) = []"
  proof (cases "socket s")
    case None
    with l have "live_sockets s = []" by (rule list_all_None)
    then show ?thesis using None by (simp add: live_disconnect)
  next
    case (Some i)
    then show ?thesis using list_all_same_filter[OF l Some] by (simp add: live_disconnect)
  qed
  have "pending_timeouts (disconnect s) = pending_timeouts (clear_reconnect s)"
    by (simp add: pending_disconnect pending_clear_reconnect)
  then show "pending_timeouts (disconnect s) = []" using tracked_pending_clear[OF p] by simp
qed

lemma tracked_connect_idle:
  assumes "tracked s" "live_sockets s = []"
  shows "live_sockets (snd (connect w u s))
           = (if url_parses w (getWebSocketUrl w (customServerUrl s))
              then [length (sockets s)] else [])"
    "pending_timeouts (snd (connect w u s)) = []" "tracked (snd (connect w u s))"
proof -
  from assms have p: "list_all (\<lambda>h. reconnectTimer s = Some h) (pending_timeouts s)"
    by (simp add: tracked_def)
  show l: "live_sockets (snd (connect w u s))
           = (if url_parses w (getWebSocketUrl w (customServerUrl s))
              then [length (sockets s)] else [])"
    using assms(2) by (simp add: live_connect)
  have "pending_timeouts (snd (connect w u s)) = pending_timeouts (clear_reconnect s)"
    by (simp add: pending_connect pending_clear_reconnect)
  then show q: "pending_timeouts (snd (connect w u s)) = []"
    using tracked_pending_clear[OF p] by simp
  show "tracked (snd (connect w u s))" by (simp add: tracked_def l q connect_fields)
qed

lemma tracked_idle: "live_sockets s = [] \<Longrightarrow> pending_timeouts s = [] \<Longrightarrow> tracked s"
  by (simp add: tracked_def)

lemma tracked_disconnect': "tracked s \<Longrightarrow> tracked (disconnect s)"
  by (simp add: tracked_idle tracked_disconnect)

lemma joinInstance_alt:
  "snd (joinInstance w inst act uid uname serverUrl s)
     = snd (connect w \<lparr>userId = uid, username = uname, instanceId = Some inst,
                        activityId = truthy_str act\<rparr>
              ((disconnect s)\<lparr>customServerUrl := truthy_str serverUrl\<rparr>))"
  by (cases "truthy_str act") (simp_all add: joinInstance_def Let_def split: prod.splits sum.splits)

lemma joinInstance_fst:
  "fst (joinInstance w inst act uid uname serverUrl s)
     = (case fst (connect w \<lparr>userId = uid, username = uname, instanceId = Some inst,
                              activityId = truthy_str act\<rparr>
                    ((disconnect s)\<lparr>customServerUrl := truthy_str serverUrl\<rparr>)) of
          Inl e \<Rightarrow> Inl e
        | Inr x \<Rightarrow> Inr True)"
  by (cases "truthy_str act") (auto simp: joinInstance_def Let_def split: prod.splits sum.splits)

lemma joinInstance_outcome:
  "fst (joinInstance w inst act uid uname serverUrl s)
     = (if url_parses w (getWebSocketUrl w (truthy_str serverUrl)) then Inr True
        else Inl SyntaxError)"
  by (simp add: joinInstance_fst connect_outcome)

lemma tracked_joinInstance:
  assumes "tracked s"
  shows "live_sockets (snd (joinInstance w inst act uid uname serverUrl s))
           = (if url_parses w (getWebSocketUrl w (truthy_str serverUrl))
              then [length (sockets s)] else [])"
    "pending_timeouts (snd (joinInstance w inst act uid uname serverUrl s)) = []"
    "tracked (snd (joinInstance w inst act uid uname serverUrl s))"
proof -
  let ?t = "(disconnect s)\<lparr>customServerUrl := truthy_str serverUrl\<rparr>"
  have l: "live_sockets ?t = []"
    using tracked_disconnect(1)[OF assms] live_sockets_cong[of ?t "disconnect s"] by simp
  have p: "pending_timeouts ?t = []"
    using tracked_disconnect(2)[OF assms] pending_timeouts_cong[of ?t "disconnect s"] by simp
  have t: "tracked ?t" using l p by (rule tracked_idle)
  have n: "length (sockets ?t) = length (sockets s)" by (simp add: disconnect_fields)
  show "live_sockets (snd (joinInstance w inst act uid uname serverUrl s))
           = (if url_parses w (getWebSocketUrl w (truthy_str serverUrl))
              then [length (sockets s)] else [])"
    using tracked_connect_idle(1)[OF t l] n by (simp add: joinInstance_alt)
  show "pending_timeouts (snd (joinInstance w inst act uid uname serverUrl s)) = []"
    using tracked_connect_idle(2)[OF t l] by (simp add: joinInstance_alt)
  show "tracked (snd (joinInstance w inst act uid uname serverUrl s))"
    using tracked_connect_idle(3)[OF t l] by (simp add: joinInstance_alt)
qed

lemma tracked_do_calls:
  "tracked s \<Longrightarrow> connect_when_idle w cs s \<Longrightarrow> tracked (do_calls w cs s)"
proof (induction cs arbitrary: s)
  case Nil
  then show ?case by (simp add: do_calls_def)
next
  case (Cons c cs)
  have step: "tracked (do_call w s c)"
  proof (cases c)
    case (Connect user)
    then show ?thesis using Cons.prems by (simp add: tracked_connect_idle)
  next
    case (JoinInstance inst act uid uname serverUrl)
    then show ?thesis using Cons.prems(1) by (simp add: tracked_joinInstance)
  next
    case Disconnect
    then show ?thesis using Cons.prems(1) by (simp add: tracked_disconnect')
  qed
  have "connect_when_idle w cs (do_call w s c)"
    using Cons.prems(2) by (cases c) simp_all
  from Cons.IH[OF step this] show ?case by (simp add: do_calls_def)
qed

lemma connect_when_idle_take:
  "connect_when_idle w cs s \<Longrightarrow> connect_when_idle w (take n cs) s"
proof (induction cs arbitrary: s n)
  case Nil
  then show ?case by simp
next
  case (Cons c cs)
  show ?case
  proof (cases n)
    case 0
    then show ?thesis by simp
  next
    case (Suc m)
    then show ?thesis using Cons.prems Cons.IH[of _ m] by (cases c) simp_all
  qed
qed

lemma all_same_short: "distinct xs \<Longrightarrow> list_all (\<lambda>x. a = Some x) xs \<Longrightarrow> length xs \<le> 1"
  by (cases xs; cases "tl xs") auto

lemma tracked_at_most_one:
  assumes "tracked s"
  shows "length (live_sockets s) \<le> 1" "length (pending_timeouts s) \<le> 1"
proof -
  from assms have l: "list_all (\<lambda>i. socket s = Some i) (live_sockets s)"
    and p: "list_all (\<lambda>h. reconnectTimer s = Some h) (pending_timeouts s)"
    by (simp_all add: tracked_def)
  have "distinct (live_sockets s)" by (simp add: live_sockets_def)
  then show "length (live_sockets s) \<le> 1" using l by (rule all_same_short)
  have "distinct (pending_timeouts s)" by (simp add: pending_timeouts_def)
  then show "length (pending_timeouts s) \<le> 1" using p by (rule all_same_short)
qed


lemma live_joinInstance:
  "live_sockets (snd (joinInstance w inst act uid uname serverUrl t))
     = (case socket t of Some i \<Rightarrow> filter (\<lambda>j. j \<noteq> i) (live_sockets t) | None \<Rightarrow> live_sockets t)
       @ (if url_parses w (getWebSocketUrl w (truthy_str serverUrl))
          then [length (sockets t)] else [])"
proof -
  let ?t = "(disconnect t)\<lparr>customServerUrl := truthy_str serverUrl\<rparr>"
  have "live_sockets ?t = live_sockets (disconnect t)" by (rule live_sockets_cong) simp
  moreover have "length (sockets ?t) = length (sockets t)" by (simp add: disconnect_fields)
  ultimately show ?thesis by (simp add: joinInstance_alt live_connect live_disconnect)
qed

text \<open>
  Claim C1, as the code has it. Start from a state in which the module variables account
  for everything alive (the initial state is one), and let the application make any
  sequence of \<open>connect\<close>, \<open>joinInstance\<close> and \<open>disconnect\<close> calls in which \<open>connect\<close> is
  only called while no socket is open or connecting. Then after every prefix of the sequence
  at most one socket is open or connecting and at most one timeout is pending.
  \<open>connect\<close> itself cancels the timeout held in \<open>reconnectTimer\<close> and opens a new socket
  (none when the browser cannot parse the URL), and leaves every socket opened earlier as
  it is; \<open>joinInstance\<close> first closes the socket held in \<open>socket\<close>.
\<close>

theorem at_most_one_channel_when_connect_is_idle:
  assumes "tracked s" and "connect_when_idle w cs s"
  shows "length (live_sockets (do_calls w (take n cs) s)) \<le> 1
       \<and> length (pending_timeouts (do_calls w (take n cs) s)) \<le> 1
       \<and> live_sockets (snd (connect w u t))
           = live_sockets t @ (if url_parses w (getWebSocketUrl w (customServerUrl t))
                               then [length (sockets t)] else [])
       \<and> pending_timeouts (snd (connect w u t))
           = (case truthy_handle (reconnectTimer t) of
                Some h \<Rightarrow> filter (\<lambda>j. j \<noteq> h) (pending_timeouts t)
              | None \<Rightarrow> pending_timeouts t)
       \<and> live_sockets (snd (joinInstance w inst act uid uname serverUrl t))
           = (case socket t of
                Some i \<Rightarrow> filter (\<lambda>j. j \<noteq> i) (live_sockets t)
              | None \<Rightarrow> live_sockets t)
             @ (if url_parses w (getWebSocketUrl w (truthy_str serverUrl))
                then [length (sockets t)] else [])"
proof -
  have "tracked (do_calls w (take n cs) s)"
    using assms(1) connect_when_idle_take[OF assms(2)] by (rule tracked_do_calls)
  then have "length (live_sockets (do_calls w (take n cs) s)) \<le> 1"
    and "length (pending_timeouts (do_calls w (take n cs) s)) \<le> 1"
    by (rule tracked_at_most_one)+
  then show ?thesis
    using live_connect[of w u t] pending_connect[of w u t]
      live_joinInstance[of w inst act uid uname serverUrl t]
    by simp
qed

lemma example_page_urls:
  "getWebSocketUrl example_page None = ''wss://localhost:5173/ws''"
  "getWebSocketUrl example_page (Some ''custom.example.com'') = ''ws://custom.example.com/ws''"
  "getWebSocketUrl example_page (Some ''exa mple.com'') = ''ws://exa mple.com/ws''"
  "url_parses example_page ''wss://localhost:5173/ws''"
  "url_parses example_page ''ws://custom.example.com/ws''"
  "\<not> url_parses example_page ''ws://exa mple.com/ws''"
  by (simp_all add: getWebSocketUrl_def Let_def example_page_def page_scheme_def startsWith_def
        endsWith_def strip_http_scheme_def)

lemma tracked_initial: "tracked initial"
  by (simp add: tracked_def initial_def live_sockets_def pending_timeouts_def)

theorem at_most_one_channel_when_connect_is_idle_witness:
  "tracked initial
   \<and> connect_when_idle example_page
        [Connect alice, JoinInstance ''inst-2'' (Some ''act-9'') ''u1'' ''Alice'' (Some ''custom.example.com''),
         Disconnect, Connect alice] initial
   \<and> length (live_sockets (do_calls example_page (take 2
        [Connect alice, JoinInstance ''inst-2'' (Some ''act-9'') ''u1'' ''Alice'' (Some ''custom.example.com''),
         Disconnect, Connect alice]) initial)) \<le> 1
   \<and> length (pending_timeouts (do_calls example_page (take 2
        [Connect alice, JoinInstance ''inst-2'' (Some ''act-9'') ''u1'' ''Alice'' (Some ''custom.example.com''),
         Disconnect, Connect alice]) initial)) \<le> 1"
proof -
  have c1: "live_sockets initial = []" by (simp add: initial_def live_sockets_def)
  note t1 = tracked_connect_idle[OF tracked_initial c1, of example_page alice]
  note t2 = tracked_joinInstance[OF t1(3), of example_page "''inst-2''" "Some ''act-9''" "''u1''" "''Alice''" "Some ''custom.example.com''"]
  note t3 = tracked_disconnect[OF t2(3)]
  have idle: "connect_when_idle example_page
        [Connect alice, JoinInstance ''inst-2'' (Some ''act-9'') ''u1'' ''Alice'' (Some ''custom.example.com''),
         Disconnect, Connect alice] initial"
    using c1 t3(1) by simp
  show ?thesis
    using at_most_one_channel_when_connect_is_idle[OF tracked_initial idle, of 2] tracked_initial idle
    by simp
qed

text \<open>
  Two \<open>connect\<close> calls in a row leave two sockets connecting: the first one is not closed.
\<close>

theorem connect_twice_leaves_two_channels:
  "live_sockets (do_calls example_page [Connect alice, Connect alice] initial) = [0, 1]
   \<and> ready 0 (do_calls example_page [Connect alice, Connect alice] initial) = Some CONNECTING
   \<and> ready 1 (do_calls example_page [Connect alice, Connect alice] initial) = Some CONNECTING"
proof -
  have "customServerUrl initial = None" "sockets initial = []" "live_sockets initial = []"
    by (simp_all add: initial_def live_sockets_def)
  then show ?thesis
    by (simp add: do_calls_def live_connect connect_fields ready_def example_page_urls)
qed












subsection \<open>What \<open>joinInstance\<close> returns\<close>

text \<open>
  Claim C10, as the code has it. \<open>joinInstance\<close> never returns \<open>false\<close>. It returns \<open>true\<close>
  exactly when the browser can parse the URL resolved from the new override; when it
  cannot, the constructor's exception leaves \<open>joinInstance\<close> and nothing is returned.
\<close>

theorem joinInstance_true_or_raises:
  "(url_parses w (getWebSocketUrl w (truthy_str serverUrl)) \<longrightarrow>
      fst (joinInstance w inst act uid uname serverUrl s) = Inr True)
   \<and> (\<not> url_parses w (getWebSocketUrl w (truthy_str serverUrl)) \<longrightarrow>
      fst (joinInstance w inst act uid uname serverUrl s) = Inl SyntaxError)
   \<and> fst (joinInstance w inst act uid uname serverUrl s) \<noteq> Inr False"
  by (simp add: joinInstance_outcome)

theorem joinInstance_true_or_raises_witness:
  "url_parses example_page (getWebSocketUrl example_page (truthy_str (Some ''custom.example.com'')))
   \<and> fst (joinInstance example_page ''inst-2'' (Some ''act-9'') ''u1'' ''Alice''
          (Some ''custom.example.com'') connecting_alice) = Inr True
   \<and> \<not> url_parses example_page (getWebSocketUrl example_page (truthy_str (Some ''exa mple.com'')))
   \<and> fst (joinInstance example_page ''inst-2'' (Some ''act-9'') ''u1'' ''Alice''
          (Some ''exa mple.com'') connecting_alice) = Inl SyntaxError"
  using joinInstance_true_or_raises
          [of example_page "Some ''custom.example.com''" "''inst-2''" "Some ''act-9''" "''u1''"
              "''Alice''" connecting_alice]
        joinInstance_true_or_raises
          [of example_page "Some ''exa mple.com''" "''inst-2''" "Some ''act-9''" "''u1''"
              "''Alice''" connecting_alice]
  by (simp add: example_page_urls)

text \<open>
  On the example page, \<open>joinInstance\<close> with the override \<open>exa mple.com\<close> ends with the
  constructor's exception instead of returning \<open>true\<close>, and opens no socket.
\<close>

theorem joinInstance_raises_on_unparsable_override:
  "fst (joinInstance example_page ''inst-2'' None ''u1'' ''Alice'' (Some ''exa mple.com'') initial)
     = Inl SyntaxError
   \<and> sockets (snd (joinInstance example_page ''inst-2'' None ''u1'' ''Alice''
        (Some ''exa mple.com'') initial)) = []"
  by (simp add: joinInstance_outcome joinInstance_alt connect_fields example_page_urls)
     (simp add: disconnect_def clear_reconnect_def initial_def)

subsection \<open>Reconnection\<close>

lemma onclose_schedules:
  assumes "userInfo s = Some u" and "\<forall>g\<in>set (handlers s OnDisconnect). \<not> raises g []"
  shows "onclose s
     = s\<lparr>logs := logs s @ [(Info, ''WebSocket disconnected''),
                            (Info, ''Scheduling reconnect attempt in 5 seconds'')],
          connected := False, socket := None,
          calls := calls s @ map (\<lambda>g. (hid g, [])) (handlers s OnDisconnect),
          timeouts := timeouts s @ [\<lparr>due = now s + 5000, status = Pending\<rparr>],
          reconnectTimer := Some (Suc (length (timeouts s)))\<rparr>"
  using assms
  by (simp add: onclose_def Let_def dispatch_def forEach_all_return clientLog_def setTimeout_def)

lemma onclose_no_identity:
  assumes "userInfo s = None"
  shows "timeouts (onclose s) = timeouts s" "reconnectTimer (onclose s) = reconnectTimer s"
  using assms
  by (auto simp: onclose_def Let_def dispatch_def clientLog_def split: prod.splits)

lemma ev_close_onclose:
  "ready i s = Some r \<Longrightarrow> r \<noteq> CLOSED \<Longrightarrow> ev_close i s = onclose (set_ready i CLOSED s)"
  by (simp add: ev_close_def)

lemma set_ready_fields:
  "userInfo (set_ready i r s) = userInfo s" "handlers (set_ready i r s) = handlers s"
  "timeouts (set_ready i r s) = timeouts s" "now (set_ready i r s) = now s"
  "reconnectTimer (set_ready i r s) = reconnectTimer s"
  "customServerUrl (set_ready i r s) = customServerUrl s"
  "length (sockets (set_ready i r s)) = length (sockets s)"
  by (simp_all add: set_ready_def)

lemma timeout_status_of_advance: "timeout_status_of h (advance e x) = timeout_status_of h x"
  by (simp add: timeout_status_of_def advance_def)

lemma scheduled_fields:
  assumes "t = s'\<lparr>logs := l, connected := False, socket := None, calls := c,
                   timeouts := timeouts s' @ [\<lparr>due = now s' + 5000, status = Pending\<rparr>],
                   reconnectTimer := Some (Suc (length (timeouts s')))\<rparr>"
    and "userInfo s' = Some u"
  shows "d < 5000 \<Longrightarrow> ev_timeout w (Suc (length (timeouts s'))) (advance d t) = advance d t"
    and "5000 \<le> d \<Longrightarrow>
          sockets (ev_timeout w (Suc (length (timeouts s'))) (advance d t))
            = sockets s' @ (if url_parses w (getWebSocketUrl w (customServerUrl s'))
                            then [\<lparr>ws_url = getWebSocketUrl w (customServerUrl s'),
                                   ws_readyState = CONNECTING\<rparr>]
                            else [])"
    and "5000 \<le> d \<Longrightarrow>
          timeout_status_of (Suc (length (timeouts s')))
            (ev_timeout w (Suc (length (timeouts s'))) (advance d t)) = Some Fired"
    and "timeout_status_of (Suc (length (timeouts s'))) (disconnect (advance d t)) = Some Cleared"
    and "sockets (disconnect (advance d t)) = sockets s'"
    and "ev_timeout w (Suc (length (timeouts s'))) (advance e (disconnect (advance d t)))
           = advance e (disconnect (advance d t))"
proof -
  let ?h = "Suc (length (timeouts s'))"
  have st: "timeout_status_of ?h (advance d t) = Some Pending"
    and du: "due (timeouts (advance d t) ! (?h - 1)) = now s' + 5000"
    and nw: "now (advance d t) = now s' + d"
    by (simp_all add: assms(1) advance_def timeout_status_of_def)
  show "d < 5000 \<Longrightarrow> ev_timeout w ?h (advance d t) = advance d t"
    using st du nw by (simp add: ev_timeout_def)
  show "5000 \<le> d \<Longrightarrow> sockets (ev_timeout w ?h (advance d t))
            = sockets s' @ (if url_parses w (getWebSocketUrl w (customServerUrl s'))
                            then [\<lparr>ws_url = getWebSocketUrl w (customServerUrl s'),
                                   ws_readyState = CONNECTING\<rparr>]
                            else [])"
    using st du nw assms(2)
    by (simp add: ev_timeout_def reconnect_callback_def Let_def clientLog_def
          set_timeout_status_def)
       (simp add: assms(1) advance_def connect_fields)
  show "5000 \<le> d \<Longrightarrow> timeout_status_of ?h (ev_timeout w ?h (advance d t)) = Some Fired"
    using st du nw assms(2)
    by (simp add: ev_timeout_def reconnect_callback_def Let_def clientLog_def
          set_timeout_status_def)
       (simp add: assms(1) advance_def connect_def Let_def clear_reconnect_def clearTimeout_def
          timeout_status_of_def new_WebSocket_def clientLog_def)
  have dis: "disconnect (advance d t)
      = (advance d t)\<lparr>timeouts := timeouts s' @ [\<lparr>due = now s' + 5000, status = Cleared\<rparr>],
                       reconnectTimer := None\<rparr>"
    by (simp add: assms(1) disconnect_def Let_def clear_reconnect_def clearTimeout_def
          timeout_status_of_def set_timeout_status_def advance_def)
  show cl: "timeout_status_of ?h (disconnect (advance d t)) = Some Cleared"
    by (simp add: dis timeout_status_of_def)
  show "sockets (disconnect (advance d t)) = sockets s'"
    unfolding dis by (simp add: advance_def assms(1))
  have "timeout_status_of ?h (advance e (disconnect (advance d t))) = Some Cleared"
    using cl by (simp only: timeout_status_of_advance)
  then show "ev_timeout w ?h (advance e (disconnect (advance d t)))
           = advance e (disconnect (advance d t))"
    by (simp add: ev_timeout_def)
qed


text \<open>
  Claim C5, as the code has it. Take a close event on a socket that is not yet closed, in a
  state where no subscribed disconnect handler raises. With an identity stored, the event
  requests exactly one timeout, due 5000 ms after the event, and stores its handle in
  \<open>reconnectTimer\<close>; the timeout does nothing before that time, and at or after it runs
  and opens a new socket at the resolved URL (none when the browser cannot parse that
  URL). A \<open>disconnect()\<close> after the close event clears the
  timeout and opens nothing, and the timeout, once cleared, never runs, however much time
  passes. With no identity stored, the close event requests no timeout.
\<close>

theorem close_schedules_one_reconnect:
  assumes "ready i s = Some r" and "r \<noteq> CLOSED"
    and "\<forall>g\<in>set (handlers s OnDisconnect). \<not> raises g []"
  shows "(userInfo s = Some u \<longrightarrow>
            timeouts (ev_close i s) = timeouts s @ [\<lparr>due = now s + 5000, status = Pending\<rparr>]
          \<and> reconnectTimer (ev_close i s) = Some (Suc (length (timeouts s)))
          \<and> (d < 5000 \<longrightarrow>
                ev_timeout w (Suc (length (timeouts s))) (advance d (ev_close i s))
                  = advance d (ev_close i s))
          \<and> (5000 \<le> d \<longrightarrow>
                timeout_status_of (Suc (length (timeouts s)))
                  (ev_timeout w (Suc (length (timeouts s))) (advance d (ev_close i s)))
                  = Some Fired
                \<and> sockets (ev_timeout w (Suc (length (timeouts s))) (advance d (ev_close i s)))
                  = sockets (ev_close i s)
                    @ (if url_parses w (getWebSocketUrl w (customServerUrl s))
                       then [\<lparr>ws_url = getWebSocketUrl w (customServerUrl s),
                              ws_readyState = CONNECTING\<rparr>]
                       else []))
          \<and> timeout_status_of (Suc (length (timeouts s))) (disconnect (advance d (ev_close i s)))
                = Some Cleared
          \<and> sockets (disconnect (advance d (ev_close i s))) = sockets (ev_close i s)
          \<and> ev_timeout w (Suc (length (timeouts s))) (advance e (disconnect (advance d (ev_close i s))))
                = advance e (disconnect (advance d (ev_close i s))))
       \<and> (userInfo s = None \<longrightarrow>
            timeouts (ev_close i s) = timeouts s \<and> reconnectTimer (ev_close i s) = reconnectTimer s)"
proof (intro conjI impI)
  let ?s' = "set_ready i CLOSED s"
  have ev: "ev_close i s = onclose ?s'" using assms(1,2) by (rule ev_close_onclose)
  have nr: "\<forall>g\<in>set (handlers ?s' OnDisconnect). \<not> raises g []"
    using assms(3) by (simp add: set_ready_fields)
  {
    assume "userInfo s = None"
    then have "userInfo ?s' = None" by (simp add: set_ready_fields)
    from onclose_no_identity[OF this]
    show "timeouts (ev_close i s) = timeouts s" "reconnectTimer (ev_close i s) = reconnectTimer s"
      by (simp_all add: ev set_ready_fields)
  }
  assume "userInfo s = Some u"
  then have u: "userInfo ?s' = Some u" by (simp add: set_ready_fields)
  note t = onclose_schedules[OF u nr, folded ev]
  note f = scheduled_fields[OF t u, unfolded set_ready_fields]
  have so: "sockets (ev_close i s) = sockets ?s'" by (subst t) simp
  show "timeouts (ev_close i s) = timeouts s @ [\<lparr>due = now s + 5000, status = Pending\<rparr>]"
    by (subst t) (simp add: set_ready_fields)
  show "reconnectTimer (ev_close i s) = Some (Suc (length (timeouts s)))"
    by (subst t) (simp add: set_ready_fields)
  show "d < 5000 \<Longrightarrow> ev_timeout w (Suc (length (timeouts s))) (advance d (ev_close i s))
                  = advance d (ev_close i s)"
    by (rule f(1))
  show "5000 \<le> d \<Longrightarrow>
          timeout_status_of (Suc (length (timeouts s)))
            (ev_timeout w (Suc (length (timeouts s))) (advance d (ev_close i s))) = Some Fired"
    by (rule f(3))
  show "5000 \<le> d \<Longrightarrow>
          sockets (ev_timeout w (Suc (length (timeouts s))) (advance d (ev_close i s)))
            = sockets (ev_close i s)
              @ (if url_parses w (getWebSocketUrl w (customServerUrl s))
                 then [\<lparr>ws_url = getWebSocketUrl w (customServerUrl s),
                        ws_readyState = CONNECTING\<rparr>]
                 else [])"
    using f(2)[of d w] by (simp only: so)
  show "timeout_status_of (Suc (length (timeouts s))) (disconnect (advance d (ev_close i s)))
                = Some Cleared"
    by (rule f(4))
  show "sockets (disconnect (advance d (ev_close i s))) = sockets (ev_close i s)"
    using f(5)[of d] by (simp only: so)
  show "ev_timeout w (Suc (length (timeouts s))) (advance e (disconnect (advance d (ev_close i s))))
                = advance e (disconnect (advance d (ev_close i s)))"
    by (rule f(6))
qed


lemma connecting_alice_eq:
  "connecting_alice
     = initial\<lparr>socket := Some 0, userInfo := Some alice,
         sockets := [\<lparr>ws_url = ''wss://localhost:5173/ws'', ws_readyState = CONNECTING\<rparr>],
         logs := [(Info, ''Connecting to WebSocket server'')]\<rparr>"
  by (simp add: connecting_alice_def connect_def Let_def clear_reconnect_def clientLog_def
        new_WebSocket_def initial_def getWebSocketUrl_def example_page_def page_scheme_def
        startsWith_def)

theorem close_schedules_one_reconnect_witness:
  "ready 0 connecting_alice = Some CONNECTING \<and> CONNECTING \<noteq> CLOSED
   \<and> handlers connecting_alice OnDisconnect = []
   \<and> userInfo connecting_alice = Some alice
   \<and> timeouts (ev_close 0 connecting_alice) = [\<lparr>due = 5000, status = Pending\<rparr>]
   \<and> reconnectTimer (ev_close 0 connecting_alice) = Some 1
   \<and> ev_timeout example_page 1 (advance 4999 (ev_close 0 connecting_alice))
       = advance 4999 (ev_close 0 connecting_alice)
   \<and> sockets (ev_timeout example_page 1 (advance 5000 (ev_close 0 connecting_alice)))
       = sockets (ev_close 0 connecting_alice)
         @ [\<lparr>ws_url = ''wss://localhost:5173/ws'', ws_readyState = CONNECTING\<rparr>]
   \<and> timeout_status_of 1 (disconnect (advance 1000 (ev_close 0 connecting_alice))) = Some Cleared
   \<and> ev_timeout example_page 1 (advance 6000 (disconnect (advance 1000 (ev_close 0 connecting_alice))))
       = advance 6000 (disconnect (advance 1000 (ev_close 0 connecting_alice)))
   \<and> ready 0 anonymous_open = Some OPEN \<and> OPEN \<noteq> CLOSED
   \<and> handlers anonymous_open OnDisconnect = []
   \<and> userInfo anonymous_open = None
   \<and> timeouts (ev_close 0 anonymous_open) = []
   \<and> reconnectTimer (ev_close 0 anonymous_open) = None"
proof -
  have r: "ready 0 connecting_alice = Some CONNECTING"
    and h: "handlers connecting_alice OnDisconnect = []"
    and u: "userInfo connecting_alice = Some alice"
    and t: "timeouts connecting_alice = []" "now connecting_alice = 0"
    and c: "getWebSocketUrl example_page (customServerUrl connecting_alice) = ''wss://localhost:5173/ws''"
    by (simp_all add: connecting_alice_eq ready_def initial_def getWebSocketUrl_def
          example_page_def page_scheme_def startsWith_def)
  have nr: "\<forall>g\<in>set (handlers connecting_alice OnDisconnect). \<not> raises g []"
    by (simp add: h)
  have ne: "CONNECTING \<noteq> CLOSED" by simp
  note a = close_schedules_one_reconnect[OF r ne nr, THEN conjunct1, rule_format, OF u,
             unfolded t c, simplified]
  have r': "ready 0 anonymous_open = Some OPEN"
    and h': "handlers anonymous_open OnDisconnect = []"
    and u': "userInfo anonymous_open = None"
    and t': "timeouts anonymous_open = []" "reconnectTimer anonymous_open = None"
    by (simp_all add: anonymous_open_def ready_def initial_def)
  have nr': "\<forall>g\<in>set (handlers anonymous_open OnDisconnect). \<not> raises g []"
    by (simp add: h')
  have ne': "OPEN \<noteq> CLOSED" by simp
  note b = close_schedules_one_reconnect[OF r' ne' nr', THEN conjunct2, rule_format, OF u',
             unfolded t']
  show ?thesis
    using a[of 4999 example_page 6000] a[of 5000 example_page 6000] a[of 1000 example_page 6000]
      b r h u r' h' u' c
    by (simp add: example_page_urls)
qed

text \<open>
  With an identity stored and a disconnect handler that raises, the close event requests
  no timeout: the exception leaves \<open>onclose\<close> before the reconnection is scheduled.
\<close>

theorem raising_disconnect_handler_skips_reconnect:
  "userInfo (on OnDisconnect (always_raises 1) connecting_alice) = Some alice
   \<and> ready 0 (on OnDisconnect (always_raises 1) connecting_alice) = Some CONNECTING
   \<and> timeouts (ev_close 0 (on OnDisconnect (always_raises 1) connecting_alice)) = []
   \<and> reconnectTimer (ev_close 0 (on OnDisconnect (always_raises 1) connecting_alice)) = None"
  by (simp add: connecting_alice_eq on_def initial_def ready_def ev_close_def onclose_def Let_def
        set_ready_def clientLog_def dispatch_def always_raises_def)


lemma after_disconnect_eq:
  "disconnect (ev_open 0 connecting_alice)
     = initial\<lparr>userInfo := Some alice,
         sockets := [\<lparr>ws_url = ''wss://localhost:5173/ws'', ws_readyState = CLOSING\<rparr>],
         sent := [(0, JObj [(''type'', JStr ''join''), (''userId'', JStr ''u1''),
                            (''username'', JStr ''Alice''), (''instanceId'', JStr ''inst-1'')])],
         logs := [(Info, ''Connecting to WebSocket server''), (Info, ''WebSocket connected''),
                  (Info, ''Sending join message''), (Info, ''Sending join message'')]\<rparr>"
  by (simp add: connecting_alice_eq initial_def ev_open_def ready_def set_ready_def onopen_def
        Let_def clientLog_def send_def dispatch_def frame_def userInfo_fields_def alice_def
        disconnect_def ws_close_def clear_reconnect_def)

text \<open>
  Claim C2 at a concrete run: \<open>connect(alice)\<close>, the socket opens, \<open>disconnect()\<close>, the
  socket's close event arrives, 5000 ms pass and the timeout runs. The \<open>disconnect()\<close>
  closes the socket and leaves the manager without a socket or a pending timeout, but the
  identity stays stored. So the close event that follows requests a reconnection, and when
  the timeout runs a second socket is connecting.
\<close>

theorem disconnect_then_close_reconnects:
  "userInfo (disconnect (ev_open 0 connecting_alice)) = Some alice
   \<and> socket (disconnect (ev_open 0 connecting_alice)) = None
   \<and> live_sockets (disconnect (ev_open 0 connecting_alice)) = []
   \<and> pending_timeouts (disconnect (ev_open 0 connecting_alice)) = []
   \<and> pending_timeouts (ev_close 0 (disconnect (ev_open 0 connecting_alice))) = [1]
   \<and> reconnectTimer (ev_close 0 (disconnect (ev_open 0 connecting_alice))) = Some 1
   \<and> live_sockets (ev_timeout example_page 1
         (advance 5000 (ev_close 0 (disconnect (ev_open 0 connecting_alice))))) = [1]
   \<and> socket (ev_timeout example_page 1
         (advance 5000 (ev_close 0 (disconnect (ev_open 0 connecting_alice))))) = Some 1
   \<and> sockets (ev_timeout example_page 1
         (advance 5000 (ev_close 0 (disconnect (ev_open 0 connecting_alice)))))
       = [\<lparr>ws_url = ''wss://localhost:5173/ws'', ws_readyState = CLOSED\<rparr>,
          \<lparr>ws_url = ''wss://localhost:5173/ws'', ws_readyState = CONNECTING\<rparr>]"
  by (simp add: after_disconnect_eq initial_def live_sockets_def pending_timeouts_def live_def
        ev_close_def ready_def set_ready_def onclose_def Let_def clientLog_def dispatch_def
        setTimeout_def advance_def ev_timeout_def timeout_status_of_def set_timeout_status_def
        reconnect_callback_def connect_def clear_reconnect_def clearTimeout_def new_WebSocket_def
        getWebSocketUrl_def example_page_def page_scheme_def startsWith_def upt_rec)

end
